theory Spec2Isabelle
  imports Complex_Main
begin

section \<open>Pixel values and images\<close>

text \<open>
  The data products are two-dimensional arrays of floating point numbers.  A pixel is
  either the not-a-number sentinel or a number; numbers are modelled as reals, so rounding
  is not part of the model.  Every ordering comparison with the sentinel is false, as in
  NumPy, and arithmetic with the sentinel gives the sentinel.
\<close>

datatype px = NaN | Px real

type_synonym image = "px list list"

fun px_gt :: "px \<Rightarrow> px \<Rightarrow> bool" where
  "px_gt (Px a) (Px b) = (a > b)"
| "px_gt _ _ = False"

fun px_lt :: "px \<Rightarrow> px \<Rightarrow> bool" where
  "px_lt (Px a) (Px b) = (a < b)"
| "px_lt _ _ = False"

fun px_mul :: "px \<Rightarrow> px \<Rightarrow> px" where
  "px_mul (Px a) (Px b) = Px (a * b)"
| "px_mul _ _ = NaN"

text \<open>The number in a pixel; only asked of pixels that are numbers.\<close>

fun px_val :: "px \<Rightarrow> real" where
  "px_val (Px a) = a"
| "px_val NaN = 0"

definition shape :: "'a list list \<Rightarrow> nat list" where
  "shape a = map length a"

text \<open>The Python exceptions that the modelled code raises, catches or lets through.\<close>

datatype exn = FileNotFoundError | TypeError | ValueError | HTTPError | IndexError

section \<open>Base contour (main, lines 412--418)\<close>

text \<open>
  \<^verbatim>\<open>HIlowest = np.median(hdulist_hi[0].data[(hdulist_snr[0].data > snr_range[0])
                                           * (hdulist_snr[0].data < snr_range[1])])\<close>
  The two comparisons give boolean arrays, their product is the element-wise conjunction,
  indexing with the boolean array selects, in row-major order, the entries where it is true
  (and raises IndexError when the shapes differ), and the median of the selection is taken.
\<close>

definition array_gt :: "image \<Rightarrow> px \<Rightarrow> bool list list" where
  "array_gt a v = map (map (\<lambda>p. px_gt p v)) a"

definition array_lt :: "image \<Rightarrow> px \<Rightarrow> bool list list" where
  "array_lt a v = map (map (\<lambda>p. px_lt p v)) a"

definition bool_mul :: "bool list list \<Rightarrow> bool list list \<Rightarrow> bool list list" where
  "bool_mul a b = map2 (map2 (\<lambda>p q. p \<and> q)) a b"

definition bool_index :: "image \<Rightarrow> bool list list \<Rightarrow> exn + px list" where
  "bool_index a m =
     (if shape a \<noteq> shape m then Inl IndexError
      else Inr (concat (map2 (\<lambda>row mrow. map fst (filter snd (zip row mrow))) a m)))"

text \<open>
  \<^verbatim>\<open>np.median\<close>: not-a-number for an empty selection or one that holds the sentinel,
  otherwise the middle of the sorted values, the mean of the two middle ones when their
  number is even.
\<close>

definition np_median :: "px list \<Rightarrow> px" where
  "np_median xs =
     (if xs = [] \<or> NaN \<in> set xs then NaN
      else let s = sort (map px_val xs); n = length s
           in if odd n then Px (s ! (n div 2))
              else Px ((s ! (n div 2 - 1) + s ! (n div 2)) / 2))"

definition base_contour_of :: "image \<Rightarrow> image \<Rightarrow> px \<times> px \<Rightarrow> exn + px" where
  "base_contour_of hi_data snr_data snr_range =
     (case bool_index hi_data
             (bool_mul (array_gt snr_data (fst snr_range)) (array_lt snr_data (snd snr_range))) of
        Inl e \<Rightarrow> Inl e
      | Inr sel \<Rightarrow> Inr (np_median sel))"

definition default_snr_range :: "px \<times> px" where
  "default_snr_range = (Px 2, Px 3)"

text \<open>
  The specification's wording: the median of the intensity-map values at the pixel
  coordinates whose significance lies strictly inside the band.  The median of the
  specification is stated by counting, without sorting: the lower median is the least
  value with at least half of the values at or below it, the upper median the greatest
  value with at least half of the values at or above it, and the median is their mean
  (the two are the same value when the number of values is odd).  It is not-a-number
  when nothing is selected or a selected value is.
\<close>

definition lower_median :: "real list \<Rightarrow> real" where
  "lower_median xs =
     Min (set (filter (\<lambda>v. length xs \<le> 2 * length (filter (\<lambda>u. u \<le> v) xs)) xs))"

definition upper_median :: "real list \<Rightarrow> real" where
  "upper_median xs =
     Max (set (filter (\<lambda>v. length xs \<le> 2 * length (filter (\<lambda>u. v \<le> u) xs)) xs))"

definition median_spec :: "px list \<Rightarrow> px" where
  "median_spec xs =
     (if xs = [] \<or> NaN \<in> set xs then NaN
      else Px ((lower_median (map px_val xs) + upper_median (map px_val xs)) / 2))"

definition in_band :: "image \<Rightarrow> px \<times> px \<Rightarrow> nat \<times> nat \<Rightarrow> bool" where
  "in_band significance band = (\<lambda>(i, j).
     px_lt (fst band) (significance ! i ! j) \<and> px_lt (significance ! i ! j) (snd band))"

definition pixel_coordinates :: "image \<Rightarrow> (nat \<times> nat) list" where
  "pixel_coordinates a =
     concat (map (\<lambda>i. map (\<lambda>j. (i, j)) [0..<length (a ! i)]) [0..<length a])"

definition compute_base_contour_spec :: "image \<Rightarrow> image \<Rightarrow> px \<times> px \<Rightarrow> px" where
  "compute_base_contour_spec intensity significance band =
     median_spec (map (\<lambda>(i, j). intensity ! i ! j)
                      (filter (in_band significance band) (pixel_coordinates intensity)))"

section \<open>Field of view (main, lines 431--443)\<close>

record source =
  sid :: string
  name :: string
  x :: real
  y :: real
  x_min :: real
  x_max :: real
  y_min :: real
  y_max :: real
  has_freq :: bool

text \<open>
  \<open>cellsize\<close> is the cube's cell size in arcmin per pixel, so that the conversion
  \<^verbatim>\<open>.to(u.arcmin).value\<close> is the multiplication itself.
\<close>

definition Xsize :: "source \<Rightarrow> real \<Rightarrow> real list" where
  "Xsize s cellsize = [(x_max s - x s) * cellsize, (x s - x_min s) * cellsize]"

definition Ysize :: "source \<Rightarrow> real \<Rightarrow> real list" where
  "Ysize s cellsize = [(y_max s - y s) * cellsize, (y s - y_min s) * cellsize]"

definition np_any_gt :: "real list \<Rightarrow> real \<Rightarrow> bool" where
  "np_any_gt xs v = list_ex (\<lambda>a. a > v) xs"

text \<open>
  \<^verbatim>\<open>np.max\<close> of the two size arrays together; they hold two entries each, so the empty
  case (where NumPy raises) does not arise.
\<close>

fun np_max :: "real list \<Rightarrow> real" where
  "np_max [] = 0"
| "np_max (a # as) = fold max as a"

definition enlarged_view :: "real list \<Rightarrow> real list \<Rightarrow> real" where
  "enlarged_view xsize ysize = np_max (xsize @ ysize) * 2 * 1.05"

definition field_of_view :: "source \<Rightarrow> real \<Rightarrow> real \<Rightarrow> real" where
  "field_of_view s cellsize opt_view =
     (if np_any_gt (Xsize s cellsize) (opt_view / 2) \<or> np_any_gt (Ysize s cellsize) (opt_view / 2)
      then enlarged_view (Xsize s cellsize) (Ysize s cellsize)
      else opt_view)"

text \<open>
  The specification's wording: per axis the larger of (max - center) and (center - min),
  in angular units, and the maximum of the two axes.
\<close>

definition angular_extent_spec :: "source \<Rightarrow> real \<Rightarrow> real" where
  "angular_extent_spec s cellsize =
     max (max ((x_max s - x s) * cellsize) ((x s - x_min s) * cellsize))
         (max ((y_max s - y s) * cellsize) ((y s - y_min s) * cellsize))"

section \<open>Files, handles and the caller's survey list\<close>

text \<open>
  A FITS header is its list of cards; Python treats a header without cards as false.
  An opened FITS file is reduced to the header and the data of its first HDU.
\<close>

type_synonym fits_header = "(string \<times> string) list"

record hdulist =
  hdr :: fits_header
  dat :: image

text \<open>
  A figure is what the renderer is asked to draw: the projection of the axes, the array
  shown as the base layer, and the contour levels.
  Labels, markers and the beam patch are handed to the renderer unchanged and are not
  part of the model.
\<close>

record figure =
  projection :: "fits_header option"
  shown :: image
  levels :: "px list"

datatype message =
    Start_making | Contour_defined px | No_snr_or_mom0 | Image_bigger real
  | Making string | No_fits string | Already_exists string
  | Retrieved string | Warning_no_image string
  | Error_survey_name string | Error_http string | Done_making

text \<open>
  The mutable world of one call: the figure files, the order of \<^verbatim>\<open>savefig\<close> calls,
  the printed lines, the FITS handles that are open, and the list object the caller
  passed as \<^verbatim>\<open>surveys\<close>.
\<close>

record world =
  figures :: "string \<rightharpoonup> figure"
  saved :: "string list"
  printed :: "message list"
  opened :: "string list"
  surveys :: "string list"

text \<open>
  What the call reads and cannot change: the FITS products on disk, the cube parameters
  (\<^verbatim>\<open>get_info\<close>), the image archives, and the library routines whose code is not part
  of the repository's sources (reprojection, standard deviation, spectral conversions, and
  the renderer's \<^verbatim>\<open>contour\<close>, of which the model keeps the exception it raises for an
  array and a list of levels, if it raises one).
  Views are in arcmin.
\<close>

record env =
  fits_files :: "string \<rightharpoonup> hdulist"
  cellsize :: real
  get_hst_cosmos :: "real \<Rightarrow> hdulist option"
  geturl :: "real \<Rightarrow> string list"
  getheader :: "string \<Rightarrow> fits_header"
  getcolorim :: "real \<Rightarrow> image"
  decals_getheader :: "real \<Rightarrow> exn + fits_header"
  decals_jpg :: "real \<Rightarrow> exn + image"
  skyview_get_images :: "real \<Rightarrow> string \<Rightarrow> exn + hdulist list"
  reproject_interp :: "hdulist \<Rightarrow> fits_header option \<Rightarrow> exn + image \<times> image"
  nanstd :: "image \<Rightarrow> px"
  ax_contour :: "image \<Rightarrow> px list \<Rightarrow> exn option"
  to_kms :: "image \<Rightarrow> image"
  v_sys :: real
  vel_z_min :: real
  vel_z_max :: real

type_synonym 'a prog = "world \<Rightarrow> (exn + 'a) \<times> world"

definition ret :: "'a \<Rightarrow> 'a prog" where
  "ret a w = (Inr a, w)"

definition raise :: "exn \<Rightarrow> 'a prog" where
  "raise ex w = (Inl ex, w)"

definition bnd :: "'a prog \<Rightarrow> ('a \<Rightarrow> 'b prog) \<Rightarrow> 'b prog" where
  "bnd f g w = (case f w of (Inl ex, w1) \<Rightarrow> (Inl ex, w1) | (Inr a, w1) \<Rightarrow> g a w1)"

text \<open>\<^verbatim>\<open>try: f except ...\<close>: the handler names the exceptions it catches.\<close>

definition catch :: "'a prog \<Rightarrow> (exn \<Rightarrow> 'a prog option) \<Rightarrow> 'a prog" where
  "catch f h w =
     (case f w of
        (Inr a, w1) \<Rightarrow> (Inr a, w1)
      | (Inl ex, w1) \<Rightarrow> (case h ex of None \<Rightarrow> (Inl ex, w1) | Some k \<Rightarrow> k w1))"

definition print :: "message \<Rightarrow> unit prog" where
  "print m w = (Inr (), w\<lparr>printed := printed w @ [m]\<rparr>)"

definition isfile :: "env \<Rightarrow> string \<Rightarrow> bool prog" where
  "isfile e p w = (Inr (p \<in> dom (figures w) \<or> p \<in> dom (fits_files e)), w)"

definition fits_open :: "env \<Rightarrow> string \<Rightarrow> hdulist prog" where
  "fits_open e p w =
     (case fits_files e p of
        None \<Rightarrow> (Inl FileNotFoundError, w)
      | Some h \<Rightarrow> (Inr h, w\<lparr>opened := opened w @ [p]\<rparr>))"

definition close :: "string \<Rightarrow> unit prog" where
  "close p w = (Inr (), w\<lparr>opened := remove1 p (opened w)\<rparr>)"

definition savefig :: "string \<Rightarrow> figure \<Rightarrow> unit prog" where
  "savefig p fig w = (Inr (), w\<lparr>figures := (figures w)(p \<mapsto> fig), saved := saved w @ [p]\<rparr>)"

definition lift :: "exn + 'a \<Rightarrow> 'a prog" where
  "lift r w = (r, w)"

text \<open>\<^verbatim>\<open>ax1.contour(array, levels=...)\<close>: draws, or raises what the renderer raises.\<close>

definition contour :: "env \<Rightarrow> image \<Rightarrow> px list \<Rightarrow> unit prog" where
  "contour e z lv = (case ax_contour e z lv of None \<Rightarrow> ret () | Some ex \<Rightarrow> raise ex)"

text \<open>\<^verbatim>\<open>x in surveys\<close>, \<^verbatim>\<open>surveys[0] == x\<close> and \<^verbatim>\<open>surveys.remove(x)\<close> on the list object.\<close>

definition in_surveys :: "string \<Rightarrow> bool prog" where
  "in_surveys a w = (Inr (a \<in> set (surveys w)), w)"

definition first_survey_is :: "string \<Rightarrow> bool prog" where
  "first_survey_is a w =
     (case surveys w of [] \<Rightarrow> (Inl IndexError, w) | b # _ \<Rightarrow> (Inr (b = a), w))"

definition surveys_remove :: "string \<Rightarrow> unit prog" where
  "surveys_remove a w =
     (if a \<in> set (surveys w) then (Inr (), w\<lparr>surveys := remove1 a (surveys w)\<rparr>)
      else (Inl ValueError, w))"

definition get_surveys :: "string list prog" where
  "get_surveys w = (Inr (surveys w), w)"

section \<open>File names\<close>

fun py_replace :: "string \<Rightarrow> string \<Rightarrow> string \<Rightarrow> string" where
  "py_replace old new [] = (if old = [] then new else [])"
| "py_replace old new (c # cs) =
     (if old = [] then new @ c # py_replace old new cs
      else if take (length old) (c # cs) = old
           then new @ py_replace old new (drop (length old - 1) cs)
           else c # py_replace old new cs)"

definition py_lower_char :: "char \<Rightarrow> char" where
  "py_lower_char c =
     (case map_of (zip ''ABCDEFGHIJKLMNOPQRSTUVWXYZ'' ''abcdefghijklmnopqrstuvwxyz'') c of
        None \<Rightarrow> c
      | Some l \<Rightarrow> l)"

definition survey_nospace :: "string \<Rightarrow> string" where
  "survey_nospace survey = map py_lower_char (py_replace '' '' [] survey)"

definition product_file :: "string \<Rightarrow> source \<Rightarrow> string \<Rightarrow> string" where
  "product_file src_basename s product = src_basename @ ''_'' @ sid s @ ''_'' @ product @ ''.fits''"

definition figure_file :: "string \<Rightarrow> source \<Rightarrow> string \<Rightarrow> string \<Rightarrow> string" where
  "figure_file src_basename s product suffix =
     py_replace ''cubelets'' ''figures'' src_basename @ ''_'' @ sid s @ ''_'' @ product @ ''.'' @ suffix"

section \<open>The figure steps\<close>

text \<open>\<^verbatim>\<open>base_contour * 2 ** np.arange(10)\<close>\<close>

definition contour_ladder :: "px \<Rightarrow> px list" where
  "contour_ladder base_contour = map (\<lambda>k. px_mul base_contour (Px (2 ^ k))) [0..<10]"

text \<open>
  \<^verbatim>\<open>if not os.path.isfile(outfile): body else: print('... already exists. Will not overwrite.')\<close>,
  the frame of all six figure steps.
\<close>

definition unless_exists :: "env \<Rightarrow> string \<Rightarrow> unit prog \<Rightarrow> unit prog" where
  "unless_exists e outfile body =
     bnd (isfile e outfile) (\<lambda>ex. if \<not> ex then body else print (Already_exists outfile))"

text \<open>
  \<^verbatim>\<open>try: hdulist = fits.open(path) except FileNotFoundError: print(...); return\<close>:
  the result is absent exactly when the step returns early.
\<close>

definition open_or_report :: "env \<Rightarrow> string \<Rightarrow> message \<Rightarrow> hdulist option prog" where
  "open_or_report e path msg =
     catch (bnd (fits_open e path) (\<lambda>h. ret (Some h)))
           (\<lambda>ex. if ex = FileNotFoundError then Some (bnd (print msg) (\<lambda>_. ret None)) else None)"

text \<open>
  make_overlay subscripts \<^verbatim>\<open>opt\<close> (\<^verbatim>\<open>opt[0].header\<close>, line 64) after the mom0 product is
  open: when \<^verbatim>\<open>opt\<close> is None that is a TypeError.  The contours of the mom0 data are drawn
  (line 74) before the figure is saved; when the renderer raises there, the figure is not
  saved and the product stays open.
\<close>

definition make_overlay ::
  "env \<Rightarrow> source \<Rightarrow> string \<Rightarrow> hdulist option \<Rightarrow> px \<Rightarrow> string \<Rightarrow> string \<Rightarrow> unit prog" where
  "make_overlay e s src_basename opt base_contour suffix survey =
     (let outfile = figure_file src_basename s (''mom0'' @ survey_nospace survey) suffix;
          mom0 = product_file src_basename s ''mom0''
      in unless_exists e outfile
          (bnd (print (Making survey)) (\<lambda>_.
           bnd (open_or_report e mom0 (No_fits ''mom0'')) (\<lambda>r.
           case r of
             None \<Rightarrow> ret ()
           | Some hdulist_hi \<Rightarrow>
               (case opt of
                  None \<Rightarrow> raise TypeError
                | Some opt0 \<Rightarrow>
                    bnd (contour e (dat hdulist_hi) (contour_ladder base_contour)) (\<lambda>_.
                    bnd (savefig outfile
                           \<lparr>projection = Some (hdr opt0), shown = dat opt0,
                            levels = contour_ladder base_contour\<rparr>) (\<lambda>_.
                    close mom0)))))))"

definition make_mom0 ::
  "env \<Rightarrow> source \<Rightarrow> string \<Rightarrow> fits_header \<Rightarrow> px \<Rightarrow> string \<Rightarrow> unit prog" where
  "make_mom0 e s src_basename opt_head base_contour suffix =
     (let outfile = figure_file src_basename s ''mom0hi'' suffix;
          mom0 = product_file src_basename s ''mom0''
      in unless_exists e outfile
          (bnd (print (Making ''HI grey scale map'')) (\<lambda>_.
           bnd (open_or_report e mom0 (No_fits ''mom0'')) (\<lambda>r.
           case r of
             None \<Rightarrow> ret ()
           | Some hdulist_hi \<Rightarrow>
               bnd (lift (reproject_interp e hdulist_hi (Some opt_head))) (\<lambda>(hi_reprojected, footprint).
               bnd (contour e hi_reprojected (contour_ladder base_contour)) (\<lambda>_.
               bnd (savefig outfile
                      \<lparr>projection = Some opt_head, shown = hi_reprojected,
                       levels = contour_ladder base_contour\<rparr>) (\<lambda>_.
               close mom0)))))))"

definition make_snr ::
  "env \<Rightarrow> source \<Rightarrow> string \<Rightarrow> fits_header \<Rightarrow> px \<Rightarrow> string \<Rightarrow> unit prog" where
  "make_snr e s src_basename opt_head base_contour suffix =
     (let outfile = figure_file src_basename s ''snr'' suffix;
          snr = product_file src_basename s ''snr'';
          mom0 = product_file src_basename s ''mom0''
      in unless_exists e outfile
          (bnd (print (Making ''pixel SNR map'')) (\<lambda>_.
           bnd (open_or_report e snr (No_fits ''SNR'')) (\<lambda>r.
           case r of
             None \<Rightarrow> ret ()
           | Some hdulist_snr \<Rightarrow>
               bnd (fits_open e mom0) (\<lambda>hdulist_hi.
               bnd (lift (reproject_interp e hdulist_snr (Some opt_head))) (\<lambda>(snr_reprojected, footprint).
               bnd (lift (reproject_interp e hdulist_hi (Some opt_head))) (\<lambda>(hi_reprojected, footprint).
               bnd (contour e hi_reprojected [base_contour]) (\<lambda>_.
               bnd (savefig outfile
                      \<lparr>projection = Some opt_head, shown = snr_reprojected,
                       levels = [base_contour]\<rparr>) (\<lambda>_.
               close mom0)))))))))"

text \<open>\<^verbatim>\<open>mom1_reprojected[hi_reprojected < HIlowest] = np.nan\<close> (line 250)\<close>

definition mask_below :: "image \<Rightarrow> image \<Rightarrow> px \<Rightarrow> exn + image" where
  "mask_below mom1_reprojected hi_reprojected HIlowest =
     (if shape mom1_reprojected \<noteq> shape hi_reprojected then Inl IndexError
      else Inr (map2 (map2 (\<lambda>v h. if px_lt h HIlowest then NaN else v))
                  mom1_reprojected hi_reprojected))"

definition velocity_levels :: "real \<Rightarrow> real \<Rightarrow> real \<Rightarrow> px list" where
  "velocity_levels vsys velmin velmax =
     (if \<bar>velmax - velmin\<bar> > 200
      then [Px (vsys - 100), Px (vsys - 50), Px vsys, Px (vsys + 50), Px (vsys + 100)]
      else [Px (vsys - 50), Px vsys, Px (vsys + 50)])"

text \<open>
  Lines 226--227 and 238--241: the ends of the source's velocity range, 5 km/s inside the
  velocities of its first and last channel.
\<close>

definition velmax_of :: "env \<Rightarrow> source \<Rightarrow> real" where
  "velmax_of e s = (if has_freq s then vel_z_min e + 5 else vel_z_max e - 5)"

definition velmin_of :: "env \<Rightarrow> source \<Rightarrow> real" where
  "velmin_of e s = (if has_freq s then vel_z_max e - 5 else vel_z_min e + 5)"

definition make_mom1 ::
  "env \<Rightarrow> source \<Rightarrow> string \<Rightarrow> fits_header \<Rightarrow> px \<Rightarrow> string \<Rightarrow> unit prog" where
  "make_mom1 e s src_basename opt_head HIlowest suffix =
     (let outfile = figure_file src_basename s ''mom1'' suffix;
          mom1f = product_file src_basename s ''mom1'';
          mom0 = product_file src_basename s ''mom0''
      in unless_exists e outfile
          (bnd (print (Making ''velocity map'')) (\<lambda>_.
           bnd (open_or_report e mom1f (No_fits ''mom1'')) (\<lambda>r.
           case r of
             None \<Rightarrow> ret ()
           | Some mom1 \<Rightarrow>
               (let mom1_kms = mom1\<lparr>dat := to_kms e (dat mom1)\<rparr>;
                    vlevels = velocity_levels (v_sys e) (velmin_of e s) (velmax_of e s)
                in bnd (lift (reproject_interp e mom1_kms (Some opt_head))) (\<lambda>(mom1_reprojected, footprint).
                   bnd (fits_open e mom0) (\<lambda>hdulist_hi.
                   bnd (lift (reproject_interp e hdulist_hi (Some opt_head))) (\<lambda>(hi_reprojected, footprint).
                   bnd (lift (mask_below mom1_reprojected hi_reprojected HIlowest)) (\<lambda>masked.
                   bnd (contour e masked vlevels) (\<lambda>_.
                   bnd (savefig outfile
                          \<lparr>projection = Some opt_head, shown = masked, levels = vlevels\<rparr>) (\<lambda>_.
                   close mom1f)))))))))))"

text \<open>
  make_color_im opens the mom0 product outside any \<^verbatim>\<open>try\<close> and never closes it.  main
  may call it with no image and no header (after a DECaLS HTTP error); what reprojection
  onto None does is the library's answer, and showing None as an image is a TypeError.
\<close>

definition make_color_im ::
  "env \<Rightarrow> source \<Rightarrow> string \<Rightarrow> image option \<Rightarrow> fits_header option \<Rightarrow> px \<Rightarrow> string \<Rightarrow> string
     \<Rightarrow> unit prog" where
  "make_color_im e s src_basename color_im opt_head base_contour suffix survey =
     (let outfile = figure_file src_basename s (''mom0'' @ survey) suffix;
          mom0 = product_file src_basename s ''mom0'';
          survey_name = (if survey = ''panstarrs'' then ''PanSTARRS''
                         else if survey = ''decals'' then ''DECaLS'' else survey)
      in unless_exists e outfile
          (bnd (print (Making survey_name)) (\<lambda>_.
           bnd (fits_open e mom0) (\<lambda>hdulist_hi.
           bnd (lift (reproject_interp e hdulist_hi opt_head)) (\<lambda>(hi_reprojected, footprint).
           case color_im of
             None \<Rightarrow> raise TypeError
           | Some im \<Rightarrow>
               bnd (contour e hi_reprojected (contour_ladder base_contour)) (\<lambda>_.
               savefig outfile
                 \<lparr>projection = opt_head, shown = im, levels = contour_ladder base_contour\<rparr>))))))"

text \<open>\<^verbatim>\<open>levels=[-2 * pv_rms, 2 * pv_rms, 4 * pv_rms]\<close> (line 359)\<close>

definition pv_levels :: "px \<Rightarrow> px list" where
  "pv_levels pv_rms = [px_mul (Px (- 2)) pv_rms, px_mul (Px 2) pv_rms, px_mul (Px 4) pv_rms]"

definition make_pv :: "env \<Rightarrow> source \<Rightarrow> string \<Rightarrow> string \<Rightarrow> unit prog" where
  "make_pv e s src_basename suffix =
     (let outfile = figure_file src_basename s ''pv'' suffix;
          pvf = product_file src_basename s ''pv''
      in unless_exists e outfile
          (bnd (print (Making ''pv slice'')) (\<lambda>_.
           bnd (open_or_report e pvf (No_fits ''pv'')) (\<lambda>r.
           case r of
             None \<Rightarrow> ret ()
           | Some pv \<Rightarrow>
               (let pv_rms = nanstd e (dat pv)
                in bnd (contour e (dat pv) (pv_levels pv_rms)) (\<lambda>_.
                   bnd (savefig outfile
                          \<lparr>projection = Some (hdr pv), shown = dat pv, levels = pv_levels pv_rms\<rparr>) (\<lambda>_.
                   close pvf)))))))"

section \<open>Fetching survey images (modules/get_ancillary.py)\<close>

definition get_skyview :: "env \<Rightarrow> real \<Rightarrow> string \<Rightarrow> hdulist option prog" where
  "get_skyview e opt_view survey =
     bnd (lift (skyview_get_images e opt_view survey)) (\<lambda>path.
     if length path \<noteq> 0
     then bnd (print (Retrieved survey)) (\<lambda>_. ret (Some (path ! 0)))
     else bnd (print (Warning_no_image survey)) (\<lambda>_. ret None))"

definition get_panstarrs :: "env \<Rightarrow> real \<Rightarrow> (image option \<times> fits_header option) prog" where
  "get_panstarrs e opt_view =
     (let path = geturl e opt_view
      in if length path \<noteq> 0
         then (let fits_head = getheader e (path ! 0); color_im = getcolorim e opt_view
               in bnd (print (Retrieved ''PanSTARRS'')) (\<lambda>_. ret (Some color_im, Some fits_head)))
         else bnd (print (Warning_no_image ''PanSTARRS'')) (\<lambda>_. ret (None, None)))"

definition get_decals :: "env \<Rightarrow> real \<Rightarrow> (image option \<times> fits_header option) prog" where
  "get_decals e opt_view =
     catch (bnd (lift (decals_getheader e opt_view)) (\<lambda>fits_head.
            bnd (lift (decals_jpg e opt_view)) (\<lambda>color_im.
            ret (Some color_im, Some fits_head))))
           (\<lambda>ex. if ex = HTTPError
                 then Some (bnd (print (Warning_no_image ''DECaLS'')) (\<lambda>_. ret (None, None)))
                 else None)"

section \<open>The orchestrator (main)\<close>

datatype retval = ReturnsNone | ReturnsTrue

text \<open>
  Lines 412--418: both products are opened in one \<^verbatim>\<open>with\<close> statement, which closes
  what it opened on every way out (the median is a pure value, so taking it before or
  after the closing is the same); a missing file is reported and main returns.
\<close>

definition calculate_base_contour ::
  "env \<Rightarrow> source \<Rightarrow> string \<Rightarrow> px \<times> px \<Rightarrow> px option prog" where
  "calculate_base_contour e s src_basename snr_range =
     (let snr = product_file src_basename s ''snr''; mom0 = product_file src_basename s ''mom0''
      in catch
           (bnd (fits_open e snr) (\<lambda>hdulist_snr.
            bnd (catch (fits_open e mom0) (\<lambda>ex. Some (bnd (close snr) (\<lambda>_. raise ex)))) (\<lambda>hdulist_hi.
            bnd (close mom0) (\<lambda>_.
            bnd (close snr) (\<lambda>_.
            bnd (lift (base_contour_of (dat hdulist_hi) (dat hdulist_snr) snr_range)) (\<lambda>HIlowest.
            bnd (print (Contour_defined HIlowest)) (\<lambda>_.
            ret (Some HIlowest))))))))
           (\<lambda>ex. if ex = FileNotFoundError
                 then Some (bnd (print No_snr_or_mom0) (\<lambda>_. ret None))
                 else None))"

text \<open>Lines 455--470: the HST image; 40 arcsec is 2/3 arcmin.\<close>

definition hst_block ::
  "env \<Rightarrow> source \<Rightarrow> string \<Rightarrow> string \<Rightarrow> px \<Rightarrow> fits_header option \<times> real
     \<Rightarrow> (fits_header option \<times> real) prog" where
  "hst_block e s src_basename suffix HIlowest st =
     bnd (in_surveys ''hst'') (\<lambda>a.
     bnd (in_surveys ''HST'') (\<lambda>b.
     if a \<or> b then
       (let hst_opt_view = field_of_view s (cellsize e) (40 / 60);
            hst_opt = get_hst_cosmos e hst_opt_view
        in bnd (case hst_opt of
                  Some opt0 \<Rightarrow> make_overlay e s src_basename hst_opt HIlowest suffix ''hst''
                | None \<Rightarrow> ret ()) (\<lambda>_.
           bnd (first_survey_is ''hst'') (\<lambda>is_first.
           bnd (if is_first
                then (case hst_opt of
                        None \<Rightarrow> raise TypeError
                      | Some opt0 \<Rightarrow> ret (Some (hdr opt0), hst_opt_view))
                else ret st) (\<lambda>st'.
           bnd (surveys_remove ''hst'') (\<lambda>_.
           ret st')))))
     else ret st))"

text \<open>Lines 472--480.\<close>

definition panstarrs_block ::
  "env \<Rightarrow> source \<Rightarrow> string \<Rightarrow> string \<Rightarrow> px \<Rightarrow> real \<Rightarrow> fits_header option
     \<Rightarrow> fits_header option prog" where
  "panstarrs_block e s src_basename suffix HIlowest opt_view opt_head =
     bnd (in_surveys ''panstarrs'') (\<lambda>a.
     if a then
       bnd (get_panstarrs e opt_view) (\<lambda>(pstar_im, pstar_head).
       bnd (case pstar_im of
              Some im \<Rightarrow> make_color_im e s src_basename pstar_im pstar_head HIlowest suffix ''panstarrs''
            | None \<Rightarrow> ret ()) (\<lambda>_.
       bnd (first_survey_is ''panstarrs'') (\<lambda>is_first.
       bnd (surveys_remove ''panstarrs'') (\<lambda>_.
       ret (if is_first then pstar_head else opt_head)))))
     else ret opt_head)"

text \<open>Lines 482--489.\<close>

definition decals_block ::
  "env \<Rightarrow> source \<Rightarrow> string \<Rightarrow> string \<Rightarrow> px \<Rightarrow> real \<Rightarrow> fits_header option
     \<Rightarrow> fits_header option prog" where
  "decals_block e s src_basename suffix HIlowest opt_view opt_head =
     bnd (in_surveys ''decals'') (\<lambda>a.
     if a then
       bnd (get_decals e opt_view) (\<lambda>(decals_im, decals_head).
       bnd (make_color_im e s src_basename decals_im decals_head HIlowest suffix ''decals'') (\<lambda>_.
       bnd (first_survey_is ''decals'') (\<lambda>is_first.
       bnd (surveys_remove ''decals'') (\<lambda>_.
       ret (if is_first then decals_head else opt_head)))))
     else ret opt_head)"

text \<open>Lines 492--505: the body of the loop, inside its \<^verbatim>\<open>try\<close>, and the loop.\<close>

definition skyview_body ::
  "env \<Rightarrow> source \<Rightarrow> string \<Rightarrow> string \<Rightarrow> px \<Rightarrow> real \<Rightarrow> string \<Rightarrow> fits_header option
     \<Rightarrow> fits_header option prog" where
  "skyview_body e s src_basename suffix HIlowest opt_view survey opt_head =
     catch
       (bnd (get_skyview e opt_view survey) (\<lambda>overlay_image.
        bnd (make_overlay e s src_basename overlay_image HIlowest suffix survey) (\<lambda>_.
        bnd (first_survey_is survey) (\<lambda>is_first.
        if is_first
        then (case overlay_image of
                None \<Rightarrow> raise TypeError
              | Some im \<Rightarrow> ret (Some (hdr im)))
        else ret opt_head))))
       (\<lambda>ex. if ex = ValueError then Some (bnd (print (Error_survey_name survey)) (\<lambda>_. ret opt_head))
             else if ex = HTTPError then Some (bnd (print (Error_http survey)) (\<lambda>_. ret opt_head))
             else None)"

fun skyview_loop ::
  "env \<Rightarrow> source \<Rightarrow> string \<Rightarrow> string \<Rightarrow> px \<Rightarrow> real \<Rightarrow> string list \<Rightarrow> fits_header option
     \<Rightarrow> fits_header option prog" where
  "skyview_loop e s src_basename suffix HIlowest opt_view [] opt_head = ret opt_head"
| "skyview_loop e s src_basename suffix HIlowest opt_view (survey # rest) opt_head =
     bnd (skyview_body e s src_basename suffix HIlowest opt_view survey opt_head) (\<lambda>opt_head'.
     skyview_loop e s src_basename suffix HIlowest opt_view rest opt_head')"

text \<open>
  Lines 455--505: the survey images in the order the code takes them, returning the grid
  \<^verbatim>\<open>opt_head\<close> and the view of the moment maps.
\<close>

definition survey_images ::
  "env \<Rightarrow> source \<Rightarrow> string \<Rightarrow> string \<Rightarrow> px \<Rightarrow> real \<Rightarrow> (fits_header option \<times> real) prog" where
  "survey_images e s src_basename suffix HIlowest opt_view =
     bnd (hst_block e s src_basename suffix HIlowest (None, opt_view)) (\<lambda>(opt_head, opt_view).
     bnd (panstarrs_block e s src_basename suffix HIlowest opt_view opt_head) (\<lambda>opt_head.
     bnd (decals_block e s src_basename suffix HIlowest opt_view opt_head) (\<lambda>opt_head.
     bnd get_surveys (\<lambda>remaining.
     bnd (skyview_loop e s src_basename suffix HIlowest opt_view remaining opt_head) (\<lambda>opt_head.
     ret (opt_head, opt_view))))))"

text \<open>
  Lines 507--512; \<^verbatim>\<open>if opt_head:\<close> is false for None and for a header without cards.
\<close>

definition moment_maps ::
  "env \<Rightarrow> source \<Rightarrow> string \<Rightarrow> string \<Rightarrow> px \<Rightarrow> fits_header option \<Rightarrow> unit prog" where
  "moment_maps e s src_basename suffix HIlowest opt_head =
     (case opt_head of
        None \<Rightarrow> ret ()
      | Some head \<Rightarrow>
          if head = [] then ret ()
          else bnd (make_mom0 e s src_basename head HIlowest suffix) (\<lambda>_.
               bnd (make_snr e s src_basename head HIlowest suffix) (\<lambda>_.
               make_mom1 e s src_basename head HIlowest suffix)))"

definition main ::
  "env \<Rightarrow> source \<Rightarrow> string \<Rightarrow> real \<Rightarrow> string \<Rightarrow> px \<times> px \<Rightarrow> retval prog" where
  "main e s src_basename opt_view suffix snr_range =
     bnd (print Start_making) (\<lambda>_.
     bnd (calculate_base_contour e s src_basename snr_range) (\<lambda>c.
     case c of
       None \<Rightarrow> ret ReturnsNone
     | Some HIlowest \<Rightarrow>
         (let opt_view' = field_of_view s (cellsize e) opt_view
          in bnd (if np_any_gt (Xsize s (cellsize e)) (opt_view / 2)
                       \<or> np_any_gt (Ysize s (cellsize e)) (opt_view / 2)
                  then print (Image_bigger opt_view') else ret ()) (\<lambda>_.
             bnd (survey_images e s src_basename suffix HIlowest opt_view') (\<lambda>(opt_head, opt_view'').
             bnd (moment_maps e s src_basename suffix HIlowest opt_head) (\<lambda>_.
             bnd (make_pv e s src_basename suffix) (\<lambda>_.
             bnd (print Done_making) (\<lambda>_.
             ret ReturnsTrue))))))))"

section \<open>Registered products and their footprint\<close>

fun px_ge :: "px \<Rightarrow> px \<Rightarrow> bool" where
  "px_ge (Px a) (Px b) = (a \<ge> b)"
| "px_ge _ _ = False"

text \<open>
  The reprojection routine is a library call; the repository only uses its result.  A
  registered product is the reprojected array paired with its validity footprint: where the
  footprint is full (1), the array carries an interpolated value, not the sentinel.
\<close>

definition validity_footprint :: "image \<Rightarrow> image \<Rightarrow> bool" where
  "validity_footprint footprint a \<longleftrightarrow>
     shape footprint = shape a \<and>
     (\<forall>i < length a. \<forall>j < length (a ! i). footprint ! i ! j = Px 1 \<longrightarrow> a ! i ! j \<noteq> NaN)"

section \<open>Concrete inputs\<close>

text \<open>
  A source whose cube has a velocity axis (no \<^verbatim>\<open>freq\<close> column), with 2 x 3 moment maps.
  The significance lies strictly between 2 and 3 at three pixels, where the intensity is
  2, 10 and 3: their median is 3 and their mean is 5.
\<close>

definition example_source :: source where
  "example_source =
     \<lparr>sid = ''1'', name = ''J1'', x = 10, y = 10, x_min = 8, x_max = 12, y_min = 9, y_max = 11,
      has_freq = False\<rparr>"

definition example_intensity :: image where
  "example_intensity = [[Px 100, Px 2, Px 10], [Px 200, Px 3, Px 50]]"

definition example_significance :: image where
  "example_significance = [[Px 2, Px (5 / 2), Px (29 / 10)], [Px 3, Px (11 / 5), Px 1]]"

text \<open>
  The velocity map in m/s, and a 2 x 13 position-velocity array with mean 1 and standard
  deviation 5.
\<close>

definition example_velocity :: image where
  "example_velocity =
     [[Px 990000, Px 1000000, Px 1010000], [Px 995000, Px 1005000, Px 1015000]]"

definition example_pv :: image where
  "example_pv = [replicate 13 (Px 0), replicate 12 (Px 0) @ [Px 26]]"

definition hst_image :: hdulist where
  "hst_image = \<lparr>hdr = [(''SURVEY'', ''hst'')], dat = [[Px 0, Px 1], [Px 2, Px 3]]\<rparr>"

definition dss_image :: hdulist where
  "dss_image = \<lparr>hdr = [(''SURVEY'', ''DSS2 Blue'')], dat = [[Px 0, Px 1], [Px 2, Px 3]]\<rparr>"

definition panstarrs_header :: fits_header where
  "panstarrs_header = [(''SURVEY'', ''panstarrs'')]"

text \<open>
  The renderer of the examples raises as matplotlib's \<^verbatim>\<open>contour\<close> does: a TypeError for an
  array with fewer than two rows or two columns, and a ValueError when there are several
  levels, all of them numbers, that do not increase strictly.
\<close>

definition matplotlib_contour :: "image \<Rightarrow> px list \<Rightarrow> exn option" where
  "matplotlib_contour z lv =
     (if length z < 2 \<or> list_ex (\<lambda>row. length row < 2) z then Some TypeError
      else if 1 < length lv \<and> NaN \<notin> set lv \<and> \<not> sorted_wrt (<) (map px_val lv)
           then Some ValueError
           else None)"

text \<open>
  A source directory with all four products, archives where HST, PanSTARRS and DSS2 Blue
  cover the position, DECaLS answers with an HTTP error, SkyView has no image for DSS2 Red
  and does not know any other survey name.  Reprojection keeps the array and fails with a
  TypeError when the target header is None.  The velocities of the first and the last
  channel are 900 and 1100 km/s, the systemic velocity is 1000 km/s.
\<close>

definition example_env :: env where
  "example_env =
     \<lparr>fits_files =
        [''cubelets/s_1_snr.fits'' \<mapsto> \<lparr>hdr = [(''BUNIT'', '' '')], dat = example_significance\<rparr>,
         ''cubelets/s_1_mom0.fits'' \<mapsto> \<lparr>hdr = [(''BUNIT'', ''Jy/beam*m/s'')], dat = example_intensity\<rparr>,
         ''cubelets/s_1_mom1.fits'' \<mapsto> \<lparr>hdr = [(''BUNIT'', ''m/s'')], dat = example_velocity\<rparr>,
         ''cubelets/s_1_pv.fits'' \<mapsto> \<lparr>hdr = [(''CTYPE1'', ''ANGLE'')], dat = example_pv\<rparr>],
      cellsize = 1 / 10,
      get_hst_cosmos = (\<lambda>view. Some hst_image),
      geturl = (\<lambda>view. [''url'']),
      getheader = (\<lambda>url. panstarrs_header),
      getcolorim = (\<lambda>view. [[Px 0, Px 1], [Px 2, Px 3]]),
      decals_getheader = (\<lambda>view. Inl HTTPError),
      decals_jpg = (\<lambda>view. Inl HTTPError),
      skyview_get_images =
        (\<lambda>view survey. if survey = ''DSS2 Blue'' then Inr [dss_image]
                       else if survey = ''DSS2 Red'' then Inr []
                       else Inl ValueError),
      reproject_interp =
        (\<lambda>h target. case target of
                       None \<Rightarrow> Inl TypeError
                     | Some head \<Rightarrow> Inr (dat h, map (map (\<lambda>v. Px 1)) (dat h))),
      nanstd = (\<lambda>a. Px 5),
      ax_contour = matplotlib_contour,
      to_kms = map (map (\<lambda>v. px_mul v (Px (1 / 1000)))),
      v_sys = 1000,
      vel_z_min = 900,
      vel_z_max = 1100\<rparr>"

definition example_env_without_snr :: env where
  "example_env_without_snr =
     example_env\<lparr>fits_files := (fits_files example_env)(''cubelets/s_1_snr.fits'' := None)\<rparr>"

definition fresh_world :: "string list \<Rightarrow> world" where
  "fresh_world survey_list =
     \<lparr>figures = Map.empty, saved = [], printed = [], opened = [], surveys = survey_list\<rparr>"


section \<open>Properties of steps\<close>

text \<open>
  A step \<open>f\<close> keeps a relation \<open>R\<close> between the world before and the world after,
  however it ends.
\<close>

definition steps :: "(world \<Rightarrow> world \<Rightarrow> bool) \<Rightarrow> 'a prog \<Rightarrow> bool" where
  "steps R f \<longleftrightarrow> (\<forall>w. R w (snd (f w)))"

definition same_surveys :: "world \<Rightarrow> world \<Rightarrow> bool" where
  "same_surveys w w' \<longleftrightarrow> surveys w' = surveys w"

text \<open>
  Every figure file that changed did not exist before and holds a figure with property
  \<open>P\<close> of path and figure.
\<close>

definition new_figures :: "(string \<Rightarrow> figure \<Rightarrow> bool) \<Rightarrow> world \<Rightarrow> world \<Rightarrow> bool" where
  "new_figures P w w' \<longleftrightarrow>
     (\<forall>p. figures w' p = figures w p
          \<or> (figures w p = None \<and> (\<exists>fig. figures w' p = Some fig \<and> P p fig)))"

text \<open>
  A quiet step gives the same result in every world and touches neither the figure
  files nor the survey list.
\<close>

definition quiet :: "'a prog \<Rightarrow> bool" where
  "quiet f \<longleftrightarrow>
     (\<exists>r. \<forall>w. fst (f w) = r \<and> figures (snd (f w)) = figures w
               \<and> saved (snd (f w)) = saved w \<and> surveys (snd (f w)) = surveys w)"

text \<open>
  A writer of \<open>p\<close> gives the same result in every world, keeps the survey list, and either
  never writes or always writes, once and to \<open>p\<close>, one figure with property \<open>P\<close>, then
  returning normally.
\<close>

definition writer :: "(figure \<Rightarrow> bool) \<Rightarrow> string \<Rightarrow> unit prog \<Rightarrow> bool" where
  "writer P p f \<longleftrightarrow>
     (\<exists>r wr. \<forall>w. fst (f w) = r \<and> surveys (snd (f w)) = surveys w \<and>
        (case wr of
           None \<Rightarrow> figures (snd (f w)) = figures w \<and> saved (snd (f w)) = saved w
         | Some fig \<Rightarrow> P fig \<and> r = Inr () \<and> figures (snd (f w)) = (figures w)(p \<mapsto> fig)
                       \<and> saved (snd (f w)) = saved w @ [p]))"

text \<open>
  A figure step skips when its output file exists and is otherwise a writer of that file.
\<close>

definition figure_step ::
  "env \<Rightarrow> (figure \<Rightarrow> bool) \<Rightarrow> string \<Rightarrow> unit prog \<Rightarrow> bool" where
  "figure_step e P p f \<longleftrightarrow> (\<exists>body. f = unless_exists e p body \<and> writer P p body)"

text \<open>A relation between worlds that is reflexive and transitive.\<close>

definition frame :: "(world \<Rightarrow> world \<Rightarrow> bool) \<Rightarrow> bool" where
  "frame R \<longleftrightarrow> (\<forall>w. R w w) \<and> (\<forall>w1 w2 w3. R w1 w2 \<longrightarrow> R w2 w3 \<longrightarrow> R w1 w3)"

text \<open>
  \<open>Q\<close> holds of whatever the survey overlays and the moment maps of a source may write:
  a figure with the contour ladder of \<open>C\<close> in a file named after \<^verbatim>\<open>mom0\<close>, a figure with
  the single level \<open>C\<close> in the SNR file, a figure with the levels \<open>V\<close> in the velocity file.
\<close>

definition admits ::
  "(string \<Rightarrow> figure \<Rightarrow> bool) \<Rightarrow> string \<Rightarrow> source \<Rightarrow> string \<Rightarrow> px \<Rightarrow> px list \<Rightarrow> bool" where
  "admits Q src_basename s suffix C V \<longleftrightarrow>
     (\<forall>survey fig. levels fig = contour_ladder C
         \<longrightarrow> Q (figure_file src_basename s (''mom0'' @ survey) suffix) fig) \<and>
     (\<forall>fig. levels fig = [C] \<longrightarrow> Q (figure_file src_basename s ''snr'' suffix) fig) \<and>
     (\<forall>fig. levels fig = V \<longrightarrow> Q (figure_file src_basename s ''mom1'' suffix) fig)"

text \<open>
  The contour levels by figure file: the single level \<open>C\<close> in the SNR figure, the levels
  \<open>V\<close> in the velocity figure, levels with property \<open>P\<close> in the position-velocity figure,
  and the whole ladder of \<open>C\<close> in every other file.
\<close>

definition levels_by_file ::
  "string \<Rightarrow> source \<Rightarrow> string \<Rightarrow> px \<Rightarrow> px list \<Rightarrow> (px list \<Rightarrow> bool) \<Rightarrow> string \<Rightarrow> figure \<Rightarrow> bool" where
  "levels_by_file src_basename s suffix C V P q fig =
     (if q = figure_file src_basename s ''snr'' suffix then levels fig = [C]
      else if q = figure_file src_basename s ''mom1'' suffix then levels fig = V
      else if q = figure_file src_basename s ''pv'' suffix then P (levels fig)
      else levels fig = contour_ladder C)"




section \<open>Quiet steps\<close>

lemmas prog_defs = ret_def raise_def bnd_def catch_def print_def isfile_def fits_open_def close_def
  savefig_def lift_def in_surveys_def first_survey_is_def surveys_remove_def get_surveys_def

lemma quietI:
  "(\<And>w. fst (f w) = r \<and> figures (snd (f w)) = figures w
         \<and> saved (snd (f w)) = saved w \<and> surveys (snd (f w)) = surveys w) \<Longrightarrow> quiet f"
  unfolding quiet_def by blast

lemma quiet_ret: "quiet (ret a)"
  by (rule quietI [of _ "Inr a"]) (simp add: ret_def)

lemma quiet_raise: "quiet (raise ex)"
  by (rule quietI [of _ "Inl ex"]) (simp add: raise_def)

lemma quiet_lift: "quiet (lift r)"
  by (rule quietI [of _ r]) (simp add: lift_def)

lemma quiet_print: "quiet (print m)"
  by (rule quietI [of _ "Inr ()"]) (simp add: print_def)

lemma quiet_close: "quiet (close p)"
  by (rule quietI [of _ "Inr ()"]) (simp add: close_def)

lemma quiet_fits_open: "quiet (fits_open e p)"
  by (rule quietI [of _ "case fits_files e p of None \<Rightarrow> Inl FileNotFoundError | Some h \<Rightarrow> Inr h"])
     (simp add: fits_open_def split: option.splits)

lemma quiet_contour: "quiet (contour e z lv)"
  by (rule quietI [of _ "case ax_contour e z lv of None \<Rightarrow> Inr () | Some ex \<Rightarrow> Inl ex"])
     (simp add: contour_def ret_def raise_def split: option.splits)

lemma quiet_bnd:
  assumes f: "quiet f" and g: "\<And>a. quiet (g a)"
  shows "quiet (bnd f g)"
proof -
  from f obtain r where r: "\<And>w. fst (f w) = r \<and> figures (snd (f w)) = figures w
      \<and> saved (snd (f w)) = saved w \<and> surveys (snd (f w)) = surveys w"
    unfolding quiet_def by blast
  show ?thesis
  proof (cases r)
    case (Inl ex)
    have "fst (bnd f g w) = Inl ex \<and> figures (snd (bnd f g w)) = figures w
        \<and> saved (snd (bnd f g w)) = saved w \<and> surveys (snd (bnd f g w)) = surveys w" for w
      using r [of w] Inl by (cases "f w") (auto simp: bnd_def)
    then show ?thesis by (rule quietI)
  next
    case (Inr a)
    from g [of a] obtain r' where r': "\<And>w. fst (g a w) = r' \<and> figures (snd (g a w)) = figures w
        \<and> saved (snd (g a w)) = saved w \<and> surveys (snd (g a w)) = surveys w"
      unfolding quiet_def by blast
    have "fst (bnd f g w) = r' \<and> figures (snd (bnd f g w)) = figures w
        \<and> saved (snd (bnd f g w)) = saved w \<and> surveys (snd (bnd f g w)) = surveys w" for w
      using r [of w] r' [of "snd (f w)"] Inr by (cases "f w") (auto simp: bnd_def)
    then show ?thesis by (rule quietI)
  qed
qed

lemma quiet_catch:
  assumes f: "quiet f" and h: "\<And>ex k. h ex = Some k \<Longrightarrow> quiet k"
  shows "quiet (catch f h)"
proof -
  from f obtain r where r: "\<And>w. fst (f w) = r \<and> figures (snd (f w)) = figures w
      \<and> saved (snd (f w)) = saved w \<and> surveys (snd (f w)) = surveys w"
    unfolding quiet_def by blast
  show ?thesis
  proof (cases r)
    case (Inr a)
    have "fst (catch f h w) = Inr a \<and> figures (snd (catch f h w)) = figures w
        \<and> saved (snd (catch f h w)) = saved w \<and> surveys (snd (catch f h w)) = surveys w" for w
      using r [of w] Inr by (cases "f w") (auto simp: catch_def)
    then show ?thesis by (rule quietI)
  next
    case (Inl ex)
    show ?thesis
    proof (cases "h ex")
      case None
      have "fst (catch f h w) = Inl ex \<and> figures (snd (catch f h w)) = figures w
          \<and> saved (snd (catch f h w)) = saved w \<and> surveys (snd (catch f h w)) = surveys w" for w
        using r [of w] Inl None by (cases "f w") (auto simp: catch_def)
      then show ?thesis by (rule quietI)
    next
      case (Some k)
      from h [OF Some] obtain r' where r': "\<And>w. fst (k w) = r' \<and> figures (snd (k w)) = figures w
          \<and> saved (snd (k w)) = saved w \<and> surveys (snd (k w)) = surveys w"
        unfolding quiet_def by blast
      have "fst (catch f h w) = r' \<and> figures (snd (catch f h w)) = figures w
          \<and> saved (snd (catch f h w)) = saved w \<and> surveys (snd (catch f h w)) = surveys w" for w
        using r [of w] r' [of "snd (f w)"] Inl Some by (cases "f w") (auto simp: catch_def)
      then show ?thesis by (rule quietI)
    qed
  qed
qed

lemma quiet_if: "(c \<Longrightarrow> quiet f) \<Longrightarrow> (\<not> c \<Longrightarrow> quiet g) \<Longrightarrow> quiet (if c then f else g)"
  by simp

lemma quiet_case_option:
  "(opt = None \<Longrightarrow> quiet f) \<Longrightarrow> (\<And>b. opt = Some b \<Longrightarrow> quiet (g b))
   \<Longrightarrow> quiet (case opt of None \<Rightarrow> f | Some b \<Rightarrow> g b)"
  by (cases opt) simp_all

lemma quiet_case_prod:
  "(\<And>a b. ab = (a, b) \<Longrightarrow> quiet (f a b)) \<Longrightarrow> quiet (case ab of (a, b) \<Rightarrow> f a b)"
  by (cases ab) simp

lemmas quiet_intros = quiet_ret quiet_raise quiet_lift quiet_print quiet_close quiet_fits_open
  quiet_contour
  quiet_bnd quiet_catch quiet_if quiet_case_option quiet_case_prod

lemma quiet_open_or_report: "quiet (open_or_report e p m)"
  unfolding open_or_report_def by (auto intro!: quiet_intros split: if_splits)

lemma quiet_calculate_base_contour: "quiet (calculate_base_contour e s b band)"
  unfolding calculate_base_contour_def Let_def by (auto intro!: quiet_intros split: if_splits)

lemma quiet_get_skyview: "quiet (get_skyview e v survey)"
  unfolding get_skyview_def by (intro quiet_intros)

lemma quiet_get_panstarrs: "quiet (get_panstarrs e v)"
  unfolding get_panstarrs_def Let_def by (intro quiet_intros)

lemma quiet_get_decals: "quiet (get_decals e v)"
  unfolding get_decals_def by (auto intro!: quiet_intros split: if_splits)

section \<open>Writers\<close>

lemma writerI:
  "(\<And>w. fst (f w) = r \<and> surveys (snd (f w)) = surveys w \<and>
         (case wr of
            None \<Rightarrow> figures (snd (f w)) = figures w \<and> saved (snd (f w)) = saved w
          | Some fig \<Rightarrow> P fig \<and> r = Inr () \<and> figures (snd (f w)) = (figures w)(p \<mapsto> fig)
                        \<and> saved (snd (f w)) = saved w @ [p])) \<Longrightarrow> writer P p f"
  unfolding writer_def by blast

lemma writer_quiet:
  assumes "quiet f"
  shows "writer P p f"
proof -
  from assms obtain r where r: "\<And>w. fst (f w) = r \<and> figures (snd (f w)) = figures w
      \<and> saved (snd (f w)) = saved w \<and> surveys (snd (f w)) = surveys w"
    unfolding quiet_def by blast
  show ?thesis
    by (rule writerI [where r = r and wr = None]) (simp add: r)
qed

lemma writer_savefig: "P fig \<Longrightarrow> writer P p (savefig p fig)"
  by (rule writerI [where r = "Inr ()" and wr = "Some fig"]) (simp add: savefig_def)

lemma writer_savefig_close: "P fig \<Longrightarrow> writer P p (bnd (savefig p fig) (\<lambda>_. close q))"
  by (rule writerI [where r = "Inr ()" and wr = "Some fig"]) (simp add: savefig_def close_def bnd_def)

lemma writer_bnd:
  assumes f: "quiet f" and g: "\<And>a w. fst (f w) = Inr a \<Longrightarrow> writer P p (g a)"
  shows "writer P p (bnd f g)"
proof -
  from f obtain r where r: "\<And>w. fst (f w) = r \<and> figures (snd (f w)) = figures w
      \<and> saved (snd (f w)) = saved w \<and> surveys (snd (f w)) = surveys w"
    unfolding quiet_def by blast
  show ?thesis
  proof (cases r)
    case (Inl ex)
    have "bnd f g w = (Inl ex, snd (f w))" for w
      using r [of w] Inl by (cases "f w") (auto simp: bnd_def)
    then show ?thesis
      by (intro writerI [where r = "Inl ex" and wr = None]) (simp add: r)
  next
    case (Inr a)
    from r Inr have "fst (f w) = Inr a" for w by simp
    from g [OF this] obtain r' wr where g': "\<And>w. fst (g a w) = r' \<and> surveys (snd (g a w)) = surveys w \<and>
         (case wr of
            None \<Rightarrow> figures (snd (g a w)) = figures w \<and> saved (snd (g a w)) = saved w
          | Some fig \<Rightarrow> P fig \<and> r' = Inr () \<and> figures (snd (g a w)) = (figures w)(p \<mapsto> fig)
                        \<and> saved (snd (g a w)) = saved w @ [p])"
      unfolding writer_def by blast
    have eq: "bnd f g w = g a (snd (f w))" for w
      using r [of w] Inr by (cases "f w") (auto simp: bnd_def)
    show ?thesis
    proof (rule writerI [where r = r' and wr = wr])
      fix w
      show "fst (bnd f g w) = r' \<and> surveys (snd (bnd f g w)) = surveys w \<and>
         (case wr of
            None \<Rightarrow> figures (snd (bnd f g w)) = figures w \<and> saved (snd (bnd f g w)) = saved w
          | Some fig \<Rightarrow> P fig \<and> r' = Inr () \<and> figures (snd (bnd f g w)) = (figures w)(p \<mapsto> fig)
                        \<and> saved (snd (bnd f g w)) = saved w @ [p])"
        unfolding eq using g' [of "snd (f w)"] r [of w] by (cases wr) auto
    qed
  qed
qed

lemma writer_case_option:
  "(opt = None \<Longrightarrow> writer P p f) \<Longrightarrow> (\<And>b. opt = Some b \<Longrightarrow> writer P p (g b))
   \<Longrightarrow> writer P p (case opt of None \<Rightarrow> f | Some b \<Rightarrow> g b)"
  by (cases opt) simp_all

lemma writer_case_prod:
  "(\<And>a b. ab = (a, b) \<Longrightarrow> writer P p (f a b)) \<Longrightarrow> writer P p (case ab of (a, b) \<Rightarrow> f a b)"
  by (cases ab) simp

lemma writer_ret: "writer P p (ret a)"
  by (rule writer_quiet) (rule quiet_ret)

lemma writer_raise: "writer P p (raise ex)"
  by (rule writer_quiet) (rule quiet_raise)

lemmas writer_intros = writer_savefig_close writer_savefig writer_ret writer_raise
  writer_case_option writer_case_prod writer_bnd quiet_intros quiet_open_or_report

lemma open_or_report_result:
  "fst (open_or_report e path m w) = Inr r \<Longrightarrow> fits_files e path = r"
  unfolding open_or_report_def prog_defs by (auto split: option.splits)

lemma figure_stepI: "f = unless_exists e p body \<Longrightarrow> writer P p body \<Longrightarrow> figure_step e P p f"
  unfolding figure_step_def by blast

section \<open>The six figure steps are figure steps\<close>

lemma step_make_overlay:
  "figure_step e (\<lambda>fig. levels fig = contour_ladder C)
     (figure_file b s (''mom0'' @ survey_nospace survey) suffix)
     (make_overlay e s b opt C suffix survey)"
  apply (rule figure_stepI)
   apply (simp only: make_overlay_def Let_def)
  apply (intro writer_intros; simp)
  done

lemma step_make_mom0:
  "figure_step e (\<lambda>fig. levels fig = contour_ladder C) (figure_file b s ''mom0hi'' suffix)
     (make_mom0 e s b head C suffix)"
  apply (rule figure_stepI)
   apply (simp only: make_mom0_def Let_def)
  apply (intro writer_intros; simp)
  done

lemma step_make_snr:
  "figure_step e (\<lambda>fig. levels fig = [C]) (figure_file b s ''snr'' suffix)
     (make_snr e s b head C suffix)"
  apply (rule figure_stepI)
   apply (simp only: make_snr_def Let_def)
  apply (intro writer_intros; simp)
  done

lemma step_make_mom1:
  "figure_step e (\<lambda>fig. levels fig = velocity_levels (v_sys e) (velmin_of e s) (velmax_of e s))
     (figure_file b s ''mom1'' suffix) (make_mom1 e s b head C suffix)"
  apply (rule figure_stepI)
   apply (simp only: make_mom1_def Let_def)
  apply (intro writer_intros; simp)
  done

lemma step_make_color_im:
  "figure_step e (\<lambda>fig. levels fig = contour_ladder C)
     (figure_file b s (''mom0'' @ survey) suffix)
     (make_color_im e s b color_im head C suffix survey)"
  apply (rule figure_stepI)
   apply (simp only: make_color_im_def Let_def)
  apply (intro writer_intros; simp)
  done

text \<open>
  The position-velocity figure, when it is written, is drawn from the PV product on disk,
  with contours at -2, 2 and 4 times the standard deviation of its data.
\<close>

lemma step_make_pv:
  "figure_step e
     (\<lambda>fig. \<exists>pv. fits_files e (product_file b s ''pv'') = Some pv
                 \<and> shown fig = dat pv \<and> levels fig = pv_levels (nanstd e (dat pv)))
     (figure_file b s ''pv'' suffix) (make_pv e s b suffix)"
  apply (rule figure_stepI)
   apply (simp only: make_pv_def Let_def)
  apply (intro writer_intros; simp)
  apply (auto dest: open_or_report_result)
  done

section \<open>Relations kept by every step\<close>

lemma frame_same_surveys: "frame same_surveys"
  by (simp add: frame_def same_surveys_def)

lemma frame_new_figures: "frame (new_figures P)"
  unfolding frame_def new_figures_def by metis

lemma stepsD: "steps R f \<Longrightarrow> f w = (r, w') \<Longrightarrow> R w w'"
  unfolding steps_def by (metis snd_conv)

lemma steps_unchanged: "frame R \<Longrightarrow> (\<And>w. snd (f w) = w) \<Longrightarrow> steps R f"
  by (simp add: steps_def frame_def)

lemma steps_bnd:
  assumes R: "frame R" and f: "steps R f" and g: "\<And>a w. fst (f w) = Inr a \<Longrightarrow> steps R (g a)"
  shows "steps R (bnd f g)"
  unfolding steps_def
proof
  fix w
  obtain r w1 where fw: "f w = (r, w1)" by (cases "f w")
  have 1: "R w w1" using f fw by (rule stepsD)
  show "R w (snd (bnd f g w))"
  proof (cases r)
    case (Inl ex)
    then show ?thesis using fw 1 by (simp add: bnd_def)
  next
    case (Inr a)
    then have "steps R (g a)" using g [of w a] fw by simp
    then have "R w1 (snd (g a w1))" by (simp add: steps_def)
    with 1 R have "R w (snd (g a w1))" unfolding frame_def by blast
    then show ?thesis using fw Inr by (simp add: bnd_def)
  qed
qed

lemma steps_catch:
  assumes R: "frame R" and f: "steps R f" and h: "\<And>ex k. h ex = Some k \<Longrightarrow> steps R k"
  shows "steps R (catch f h)"
  unfolding steps_def
proof
  fix w
  obtain r w1 where fw: "f w = (r, w1)" by (cases "f w")
  have 1: "R w w1" using f fw by (rule stepsD)
  show "R w (snd (catch f h w))"
  proof (cases r)
    case (Inr a)
    then show ?thesis using fw 1 by (simp add: catch_def)
  next
    case (Inl ex)
    show ?thesis
    proof (cases "h ex")
      case None
      then show ?thesis using fw 1 Inl by (simp add: catch_def)
    next
      case (Some k)
      then have "R w1 (snd (k w1))" using h [OF Some] by (simp add: steps_def)
      with 1 R have "R w (snd (k w1))" unfolding frame_def by blast
      then show ?thesis using fw Inl Some by (simp add: catch_def)
    qed
  qed
qed

lemma steps_if: "(c \<Longrightarrow> steps R f) \<Longrightarrow> (\<not> c \<Longrightarrow> steps R g) \<Longrightarrow> steps R (if c then f else g)"
  by simp

lemma steps_case_option:
  "(opt = None \<Longrightarrow> steps R f) \<Longrightarrow> (\<And>b. opt = Some b \<Longrightarrow> steps R (g b))
   \<Longrightarrow> steps R (case opt of None \<Rightarrow> f | Some b \<Rightarrow> g b)"
  by (cases opt) simp_all

lemma steps_case_prod:
  "(\<And>a b. ab = (a, b) \<Longrightarrow> steps R (f a b)) \<Longrightarrow> steps R (case ab of (a, b) \<Rightarrow> f a b)"
  by (cases ab) simp

lemma steps_weaken: "steps R f \<Longrightarrow> (\<And>w w'. R w w' \<Longrightarrow> R' w w') \<Longrightarrow> steps R' f"
  by (simp add: steps_def)

lemma steps_quiet_surveys: "quiet f \<Longrightarrow> steps same_surveys f"
  unfolding quiet_def steps_def same_surveys_def by blast

lemma steps_quiet_figures: "quiet f \<Longrightarrow> steps (new_figures P) f"
  unfolding quiet_def steps_def new_figures_def by metis

lemma steps_ret: "frame R \<Longrightarrow> steps R (ret a)"
  by (rule steps_unchanged) (simp_all add: ret_def)

lemma steps_raise: "frame R \<Longrightarrow> steps R (raise ex)"
  by (rule steps_unchanged) (simp_all add: raise_def)

lemma steps_in_surveys: "frame R \<Longrightarrow> steps R (in_surveys a)"
  by (rule steps_unchanged) (simp_all add: in_surveys_def)

lemma steps_first_survey_is: "frame R \<Longrightarrow> steps R (first_survey_is a)"
  by (rule steps_unchanged) (simp_all add: first_survey_is_def split: list.splits)

lemma steps_get_surveys: "frame R \<Longrightarrow> steps R get_surveys"
  by (rule steps_unchanged) (simp_all add: get_surveys_def)

lemma steps_surveys_remove_figures: "steps (new_figures P) (surveys_remove a)"
  by (simp add: steps_def new_figures_def surveys_remove_def)

section \<open>What follows for a figure step\<close>

lemma unless_exists_apply:
  "unless_exists e p body w =
     (if p \<in> dom (figures w) \<or> p \<in> dom (fits_files e)
      then (Inr (), w\<lparr>printed := printed w @ [Already_exists p]\<rparr>) else body w)"
  by (simp add: unless_exists_def bnd_def isfile_def print_def)

lemma figure_step_surveys:
  assumes "figure_step e P p f"
  shows "steps same_surveys f"
proof -
  from assms obtain body where f: "f = unless_exists e p body" and wr: "writer P p body"
    unfolding figure_step_def by blast
  from wr have "surveys (snd (body w)) = surveys w" for w
    unfolding writer_def by blast
  then show ?thesis
    unfolding steps_def same_surveys_def f by (simp add: unless_exists_apply)
qed

lemma figure_step_figures:
  assumes "figure_step e P p f"
  shows "steps (new_figures (\<lambda>q fig. q = p \<and> P fig)) f"
proof -
  from assms obtain body where f: "f = unless_exists e p body" and wr: "writer P p body"
    unfolding figure_step_def by blast
  from wr obtain r wo where b: "\<And>w. fst (body w) = r \<and> surveys (snd (body w)) = surveys w \<and>
        (case wo of
           None \<Rightarrow> figures (snd (body w)) = figures w \<and> saved (snd (body w)) = saved w
         | Some fig \<Rightarrow> P fig \<and> r = Inr () \<and> figures (snd (body w)) = (figures w)(p \<mapsto> fig)
                       \<and> saved (snd (body w)) = saved w @ [p])"
    unfolding writer_def by blast
  have "new_figures (\<lambda>q fig. q = p \<and> P fig) w (snd (body w))"
    if "p \<notin> dom (figures w)" for w
    using b [of w] that by (cases wo) (auto simp: new_figures_def)
  moreover have "new_figures (\<lambda>q fig. q = p \<and> P fig) w (w\<lparr>printed := ms\<rparr>)" for w ms
    by (simp add: new_figures_def)
  ultimately show ?thesis
    unfolding steps_def f by (simp add: unless_exists_apply)
qed

section \<open>The survey list\<close>

lemma make_overlay_surveys:
  "make_overlay e s b opt C suffix survey w = (r, w') \<Longrightarrow> surveys w' = surveys w"
  using stepsD [OF figure_step_surveys [OF step_make_overlay]]
  unfolding same_surveys_def by blast

lemma make_color_im_surveys:
  "make_color_im e s b im head C suffix survey w = (r, w') \<Longrightarrow> surveys w' = surveys w"
  using stepsD [OF figure_step_surveys [OF step_make_color_im]]
  unfolding same_surveys_def by blast

lemma get_panstarrs_surveys: "get_panstarrs e v w = (r, w') \<Longrightarrow> surveys w' = surveys w"
  using stepsD [OF steps_quiet_surveys [OF quiet_get_panstarrs]]
  unfolding same_surveys_def by blast

lemma get_decals_surveys: "get_decals e v w = (r, w') \<Longrightarrow> surveys w' = surveys w"
  using stepsD [OF steps_quiet_surveys [OF quiet_get_decals]]
  unfolding same_surveys_def by blast

lemma hst_block_surveys:
  assumes "hst_block e s b suffix C st w = (Inr st', w')"
  shows "surveys w' = remove1 ''hst'' (surveys w)"
  using assms unfolding hst_block_def Let_def
  by (auto simp: bnd_def in_surveys_def first_survey_is_def surveys_remove_def ret_def raise_def
        remove1_idem
      split: prod.splits sum.splits if_splits option.splits list.splits
      dest!: make_overlay_surveys)

lemma panstarrs_block_surveys:
  assumes "panstarrs_block e s b suffix C view head w = (Inr head', w')"
  shows "surveys w' = remove1 ''panstarrs'' (surveys w)"
  using assms unfolding panstarrs_block_def
  by (auto simp: bnd_def in_surveys_def first_survey_is_def surveys_remove_def ret_def raise_def
        remove1_idem
      split: prod.splits sum.splits if_splits option.splits list.splits
      dest!: make_color_im_surveys get_panstarrs_surveys)

lemma decals_block_surveys:
  assumes "decals_block e s b suffix C view head w = (Inr head', w')"
  shows "surveys w' = remove1 ''decals'' (surveys w)"
  using assms unfolding decals_block_def
  by (auto simp: bnd_def in_surveys_def first_survey_is_def surveys_remove_def ret_def raise_def
        remove1_idem
      split: prod.splits sum.splits if_splits option.splits list.splits
      dest!: make_color_im_surveys get_decals_surveys)

lemmas steps_intros = steps_bnd steps_catch steps_if steps_case_option steps_case_prod
  steps_ret steps_raise steps_in_surveys steps_first_survey_is steps_get_surveys

lemma steps_surveys_skyview_body:
  "steps same_surveys (skyview_body e s b suffix C view survey head)"
  unfolding skyview_body_def
  by (intro steps_intros frame_same_surveys steps_quiet_surveys [OF quiet_get_skyview]
        figure_step_surveys [OF step_make_overlay])
     (auto intro!: steps_intros frame_same_surveys steps_quiet_surveys quiet_intros
        split: if_splits)

lemma steps_surveys_skyview_loop:
  "steps same_surveys (skyview_loop e s b suffix C view remaining head)"
  by (induction remaining arbitrary: head)
     (auto intro!: steps_intros frame_same_surveys steps_surveys_skyview_body)

lemma skyview_loop_surveys:
  "skyview_loop e s b suffix C view remaining head w = (r, w') \<Longrightarrow> surveys w' = surveys w"
  using stepsD [OF steps_surveys_skyview_loop] unfolding same_surveys_def by blast

lemma steps_surveys_moment_maps: "steps same_surveys (moment_maps e s b suffix C head)"
  unfolding moment_maps_def
  by (intro steps_intros frame_same_surveys figure_step_surveys [OF step_make_mom0]
        figure_step_surveys [OF step_make_snr] figure_step_surveys [OF step_make_mom1])

lemma moment_maps_surveys:
  "moment_maps e s b suffix C head w = (r, w') \<Longrightarrow> surveys w' = surveys w"
  using stepsD [OF steps_surveys_moment_maps] unfolding same_surveys_def by blast

lemma make_pv_surveys: "make_pv e s b suffix w = (r, w') \<Longrightarrow> surveys w' = surveys w"
  using stepsD [OF figure_step_surveys [OF step_make_pv]] unfolding same_surveys_def by blast

lemma calculate_base_contour_surveys:
  "calculate_base_contour e s b band w = (r, w') \<Longrightarrow> surveys w' = surveys w"
  using stepsD [OF steps_quiet_surveys [OF quiet_calculate_base_contour]]
  unfolding same_surveys_def by blast

lemma bnd_InrD:
  "bnd f g w = (Inr c, w') \<Longrightarrow> \<exists>a w1. f w = (Inr a, w1) \<and> g a w1 = (Inr c, w')"
  by (auto simp: bnd_def split: prod.splits sum.splits)

lemma survey_images_surveys:
  assumes "survey_images e s b suffix C view w = (Inr r, w')"
  shows "surveys w' = remove1 ''decals'' (remove1 ''panstarrs'' (remove1 ''hst'' (surveys w)))"
  using assms unfolding survey_images_def
  by (auto simp: get_surveys_def ret_def split: prod.splits
      dest!: bnd_InrD hst_block_surveys panstarrs_block_surveys decals_block_surveys
        skyview_loop_surveys)

text \<open>The way through main when it returns True.\<close>

lemma main_returns_True:
  assumes "main e s b view suffix band w = (Inr ReturnsTrue, w')"
  shows "\<exists>wa wb wc wd we wf HIlowest head view'.
      print Start_making w = (Inr (), wa)
    \<and> calculate_base_contour e s b band wa = (Inr (Some HIlowest), wb)
    \<and> (if np_any_gt (Xsize s (cellsize e)) (view / 2) \<or> np_any_gt (Ysize s (cellsize e)) (view / 2)
        then print (Image_bigger (field_of_view s (cellsize e) view)) else ret ()) wb = (Inr (), wc)
    \<and> survey_images e s b suffix HIlowest (field_of_view s (cellsize e) view) wc
          = (Inr (head, view'), wd)
    \<and> moment_maps e s b suffix HIlowest head wd = (Inr (), we)
    \<and> make_pv e s b suffix we = (Inr (), wf)
    \<and> print Done_making wf = (Inr (), w')"
  using assms unfolding main_def Let_def
  by (auto simp: ret_def split: prod.splits option.splits dest!: bnd_InrD)

lemma print_surveys: "print m w = (r, w') \<Longrightarrow> surveys w' = surveys w"
  by (auto simp: print_def)

lemma main_surveys:
  assumes "main e s b view suffix band w = (Inr ReturnsTrue, w')"
  shows "surveys w' = remove1 ''decals'' (remove1 ''panstarrs'' (remove1 ''hst'' (surveys w)))"
proof -
  from main_returns_True [OF assms] obtain wa wb wc wd we wf HIlowest head view' where
    1: "print Start_making w = (Inr (), wa)"
    and 2: "calculate_base_contour e s b band wa = (Inr (Some HIlowest), wb)"
    and 3: "(if np_any_gt (Xsize s (cellsize e)) (view / 2) \<or> np_any_gt (Ysize s (cellsize e)) (view / 2)
        then print (Image_bigger (field_of_view s (cellsize e) view)) else ret ()) wb = (Inr (), wc)"
    and 4: "survey_images e s b suffix HIlowest (field_of_view s (cellsize e) view) wc
          = (Inr (head, view'), wd)"
    and 5: "moment_maps e s b suffix HIlowest head wd = (Inr (), we)"
    and 6: "make_pv e s b suffix we = (Inr (), wf)"
    and 7: "print Done_making wf = (Inr (), w')"
    by blast
  from 3 have s3: "surveys wc = surveys wb"
    by (auto simp: ret_def print_def split: if_splits)
  show ?thesis
    using print_surveys [OF 1] calculate_base_contour_surveys [OF 2] s3
      survey_images_surveys [OF 4] moment_maps_surveys [OF 5] make_pv_surveys [OF 6]
      print_surveys [OF 7]
    by simp
qed

section \<open>The figures that are written\<close>

lemma figure_step_new:
  assumes "figure_step e P p f" and "\<And>fig. P fig \<Longrightarrow> Q p fig"
  shows "steps (new_figures Q) f"
  using figure_step_figures [OF assms(1)]
  by (rule steps_weaken) (use assms(2) in \<open>auto simp: new_figures_def\<close>)

lemma new_make_overlay:
  "admits Q b s suffix C
     (velocity_levels (v_sys e) (velmin_of e s) (velmax_of e s))
   \<Longrightarrow> steps (new_figures Q) (make_overlay e s b opt C suffix survey)"
  by (rule figure_step_new [OF step_make_overlay]) (simp add: admits_def)

lemma new_make_color_im:
  "admits Q b s suffix C
     (velocity_levels (v_sys e) (velmin_of e s) (velmax_of e s))
   \<Longrightarrow> steps (new_figures Q) (make_color_im e s b im head C suffix survey)"
  by (rule figure_step_new [OF step_make_color_im]) (simp add: admits_def)

lemma new_make_mom0:
  "admits Q b s suffix C
     (velocity_levels (v_sys e) (velmin_of e s) (velmax_of e s))
   \<Longrightarrow> steps (new_figures Q) (make_mom0 e s b head C suffix)"
proof (rule figure_step_new [OF step_make_mom0])
  fix fig :: figure
  assume a: "admits Q b s suffix C
     (velocity_levels (v_sys e) (velmin_of e s) (velmax_of e s))"
    and l: "levels fig = contour_ladder C"
  from a l have "Q (figure_file b s (''mom0'' @ ''hi'') suffix) fig"
    unfolding admits_def by blast
  then show "Q (figure_file b s ''mom0hi'' suffix) fig" by simp
qed

lemma new_make_snr:
  "admits Q b s suffix C
     (velocity_levels (v_sys e) (velmin_of e s) (velmax_of e s))
   \<Longrightarrow> steps (new_figures Q) (make_snr e s b head C suffix)"
  by (rule figure_step_new [OF step_make_snr]) (simp add: admits_def)

lemma new_make_mom1:
  "admits Q b s suffix C
     (velocity_levels (v_sys e) (velmin_of e s) (velmax_of e s))
   \<Longrightarrow> steps (new_figures Q) (make_mom1 e s b head C suffix)"
  by (rule figure_step_new [OF step_make_mom1]) (simp add: admits_def)

lemmas new_intros = steps_bnd steps_catch steps_if steps_case_option steps_case_prod
  steps_ret steps_raise steps_in_surveys steps_first_survey_is steps_get_surveys
  steps_surveys_remove_figures frame_new_figures
  new_make_overlay new_make_color_im new_make_mom0 new_make_snr new_make_mom1

lemma new_hst_block:
  "admits Q b s suffix C
     (velocity_levels (v_sys e) (velmin_of e s) (velmax_of e s))
   \<Longrightarrow> steps (new_figures Q) (hst_block e s b suffix C st)"
  unfolding hst_block_def Let_def by (intro new_intros)

lemma new_panstarrs_block:
  "admits Q b s suffix C
     (velocity_levels (v_sys e) (velmin_of e s) (velmax_of e s))
   \<Longrightarrow> steps (new_figures Q) (panstarrs_block e s b suffix C view head)"
  unfolding panstarrs_block_def
  by (intro new_intros steps_quiet_figures [OF quiet_get_panstarrs])

lemma new_decals_block:
  "admits Q b s suffix C
     (velocity_levels (v_sys e) (velmin_of e s) (velmax_of e s))
   \<Longrightarrow> steps (new_figures Q) (decals_block e s b suffix C view head)"
  unfolding decals_block_def
  by (intro new_intros steps_quiet_figures [OF quiet_get_decals])

lemma new_skyview_body:
  "admits Q b s suffix C
     (velocity_levels (v_sys e) (velmin_of e s) (velmax_of e s))
   \<Longrightarrow> steps (new_figures Q) (skyview_body e s b suffix C view survey head)"
  unfolding skyview_body_def
  by (intro new_intros steps_quiet_figures [OF quiet_get_skyview])
     (auto intro!: new_intros steps_quiet_figures quiet_intros split: if_splits)

lemma new_skyview_loop:
  "admits Q b s suffix C
     (velocity_levels (v_sys e) (velmin_of e s) (velmax_of e s))
   \<Longrightarrow> steps (new_figures Q) (skyview_loop e s b suffix C view remaining head)"
  by (induction remaining arbitrary: head)
     (auto intro!: new_intros new_skyview_body)

lemma new_survey_images:
  "admits Q b s suffix C
     (velocity_levels (v_sys e) (velmin_of e s) (velmax_of e s))
   \<Longrightarrow> steps (new_figures Q) (survey_images e s b suffix C view)"
  unfolding survey_images_def
  by (intro new_intros new_hst_block new_panstarrs_block new_decals_block new_skyview_loop)

lemma new_moment_maps:
  "admits Q b s suffix C
     (velocity_levels (v_sys e) (velmin_of e s) (velmax_of e s))
   \<Longrightarrow> steps (new_figures Q) (moment_maps e s b suffix C head)"
  unfolding moment_maps_def by (intro new_intros)

lemma new_figuresD:
  "steps (new_figures Q) f \<Longrightarrow> f w = (r, w')
   \<Longrightarrow> figures w' p = figures w p
       \<or> (figures w p = None \<and> (\<exists>fig. figures w' p = Some fig \<and> Q p fig))"
  using stepsD [of "new_figures Q" f w r w'] unfolding new_figures_def by blast

section \<open>Base contour: the median of the open band\<close>

lemma px_gt_lt: "px_gt a b = px_lt b a"
  by (cases a; cases b) auto

lemma zip_as_indices:
  "length r = length q \<Longrightarrow> zip r (map h q) = map (\<lambda>j. (r ! j, h (q ! j))) [0..<length r]"
  by (rule nth_equalityI) auto

lemma row_select:
  assumes "length r = length q"
  shows "map fst (filter snd (zip r (map h q)))
       = map ((!) r) (filter (\<lambda>j. h (q ! j)) [0..<length r])"
  unfolding zip_as_indices [OF assms] by (simp add: filter_map comp_def)

lemma map2_conj_map: "map2 (\<lambda>p q. p \<and> q) (map f q) (map g q) = map (\<lambda>v. f v \<and> g v) q"
  by (induction q) auto

lemma map2_as_indices:
  "length a = length b \<Longrightarrow> map2 F a b = map (\<lambda>i. F (a ! i) (b ! i)) [0..<length a]"
  by (rule nth_equalityI) auto

lemma band_mask_rows:
  "bool_mul (array_gt S lo) (array_lt S hi) = map (map (\<lambda>v. px_gt v lo \<and> px_lt v hi)) S"
  unfolding bool_mul_def array_gt_def array_lt_def
  by (induction S) (auto simp: map2_conj_map)

lemma band_mask_shape: "shape (bool_mul (array_gt S lo) (array_lt S hi)) = shape S"
  unfolding band_mask_rows shape_def by (simp add: comp_def)

lemma selection_eq:
  assumes sh: "shape I = shape S"
  shows "concat (map2 (\<lambda>row mrow. map fst (filter snd (zip row mrow))) I
            (bool_mul (array_gt S lo) (array_lt S hi)))
       = map (\<lambda>(i, j). I ! i ! j) (filter (in_band S (lo, hi)) (pixel_coordinates I))"
proof -
  let ?h = "\<lambda>v. px_gt v lo \<and> px_lt v hi"
  from sh have len: "length I = length S"
    unfolding shape_def by (metis length_map)
  have rows: "length (I ! i) = length (S ! i)" if "i < length I" for i
    using sh that len unfolding shape_def by (metis nth_map)
  have lhs: "map2 (\<lambda>row mrow. map fst (filter snd (zip row mrow))) I (map (map ?h) S)
      = map (\<lambda>i. map ((!) (I ! i)) (filter (\<lambda>j. ?h (S ! i ! j)) [0..<length (I ! i)]))
          [0..<length I]"
  proof -
    have "map2 (\<lambda>row mrow. map fst (filter snd (zip row mrow))) I (map (map ?h) S)
        = map (\<lambda>i. map fst (filter snd (zip (I ! i) (map (map ?h) S ! i)))) [0..<length I]"
      using len by (simp add: map2_as_indices)
    also have "\<dots> = map (\<lambda>i. map ((!) (I ! i))
                          (filter (\<lambda>j. ?h (S ! i ! j)) [0..<length (I ! i)])) [0..<length I]"
      using len rows by (intro map_cong refl) (simp add: row_select)
    finally show ?thesis .
  qed
  have rhs: "map (\<lambda>(i, j). I ! i ! j) (filter (in_band S (lo, hi)) (pixel_coordinates I))
      = concat (map (\<lambda>i. map ((!) (I ! i))
                  (filter (\<lambda>j. ?h (S ! i ! j)) [0..<length (I ! i)])) [0..<length I])"
    unfolding pixel_coordinates_def in_band_def
    by (simp add: filter_concat map_concat comp_def filter_map px_gt_lt conj_commute)
  show ?thesis unfolding band_mask_rows lhs rhs ..
qed

text \<open>
  The middle of the sorted values is the median by counting.  In a sorted list the entry
  at index \<open>k\<close> has at least \<open>k + 1\<close> entries at or below it and at least \<open>n - k\<close> at or
  above it, and a value below (above) it has at most \<open>k\<close> entries at or below it
  (at most \<open>n - k - 1\<close> at or above it).
\<close>

lemma count_le_sorted_nth:
  assumes "sorted xs" and "k < length xs"
  shows "k + 1 \<le> length (filter (\<lambda>u. u \<le> xs ! k) xs)"
proof -
  have "{0..k} \<subseteq> {i. i < length xs \<and> xs ! i \<le> xs ! k}"
    using assms by (auto intro: sorted_nth_mono)
  then have "card {0..k} \<le> card {i. i < length xs \<and> xs ! i \<le> xs ! k}"
    by (intro card_mono) auto
  then show ?thesis by (simp add: length_filter_conv_card)
qed

lemma count_le_below_nth:
  assumes "sorted xs" and "k < length xs" and "v < xs ! k"
  shows "length (filter (\<lambda>u. u \<le> v) xs) \<le> k"
proof -
  have "i < k" if "i < length xs" "xs ! i \<le> v" for i
  proof (rule ccontr)
    assume "\<not> i < k"
    then have "xs ! k \<le> xs ! i" using assms(1) that(1) by (intro sorted_nth_mono) auto
    with that(2) assms(3) show False by simp
  qed
  then have "{i. i < length xs \<and> xs ! i \<le> v} \<subseteq> {0..<k}"
    by auto
  then have "card {i. i < length xs \<and> xs ! i \<le> v} \<le> card {0..<k}"
    by (intro card_mono) auto
  then show ?thesis by (simp add: length_filter_conv_card)
qed

lemma count_ge_sorted_nth:
  assumes "sorted xs" and "k < length xs"
  shows "length xs - k \<le> length (filter (\<lambda>u. xs ! k \<le> u) xs)"
proof -
  have "{k..<length xs} \<subseteq> {i. i < length xs \<and> xs ! k \<le> xs ! i}"
    using assms by (auto intro: sorted_nth_mono)
  then have "card {k..<length xs} \<le> card {i. i < length xs \<and> xs ! k \<le> xs ! i}"
    by (intro card_mono) auto
  then show ?thesis by (simp add: length_filter_conv_card)
qed

lemma count_ge_above_nth:
  assumes "sorted xs" and "k < length xs" and "xs ! k < v"
  shows "length (filter (\<lambda>u. v \<le> u) xs) \<le> length xs - k - 1"
proof -
  have "k < i" if "i < length xs" "v \<le> xs ! i" for i
  proof (rule ccontr)
    assume "\<not> k < i"
    then have "xs ! i \<le> xs ! k" using assms(1,2) by (intro sorted_nth_mono) auto
    with that(2) assms(3) show False by simp
  qed
  then have "{i. i < length xs \<and> v \<le> xs ! i} \<subseteq> {k + 1..<length xs}"
    by (auto simp: Suc_le_eq)
  then have "card {i. i < length xs \<and> v \<le> xs ! i} \<le> card {k + 1..<length xs}"
    by (intro card_mono) auto
  then show ?thesis by (simp add: length_filter_conv_card)
qed

lemma count_sort: "length (filter P (sort xs)) = length (filter P xs)"
  by (simp add: filter_sort)

lemma lower_median_sorted:
  fixes xs :: "real list"
  assumes "xs \<noteq> []"
  shows "lower_median xs = sort xs ! ((length xs - 1) div 2)"
proof -
  let ?s = "sort xs" and ?n = "length xs" and ?k = "(length xs - 1) div 2"
  let ?A = "set (filter (\<lambda>v. ?n \<le> 2 * length (filter (\<lambda>u. u \<le> v) xs)) xs)"
  from assms have n: "0 < ?n" by simp
  then have "?k < ?n" by linarith
  then have k: "?k < length ?s" by simp
  have srt: "sorted ?s" by simp
  have mem: "?s ! ?k \<in> set xs"
    using k by (metis nth_mem set_sort)
  have "?k + 1 \<le> length (filter (\<lambda>u. u \<le> ?s ! ?k) xs)"
    using count_le_sorted_nth [OF srt k] by (simp add: count_sort)
  then have "?n \<le> 2 * length (filter (\<lambda>u. u \<le> ?s ! ?k) xs)"
    by linarith
  with mem have inA: "?s ! ?k \<in> ?A" by simp
  have least: "?s ! ?k \<le> v" if "v \<in> ?A" for v
  proof (rule ccontr)
    assume "\<not> ?s ! ?k \<le> v"
    then have "v < ?s ! ?k" by simp
    from count_le_below_nth [OF srt k this]
    have "length (filter (\<lambda>u. u \<le> v) xs) \<le> ?k" by (simp add: count_sort)
    moreover from that have "?n \<le> 2 * length (filter (\<lambda>u. u \<le> v) xs)" by simp
    ultimately show False using n by linarith
  qed
  have "Min ?A = ?s ! ?k"
    using inA least by (intro Min_eqI) simp_all
  then show ?thesis by (simp add: lower_median_def)
qed

lemma upper_median_sorted:
  fixes xs :: "real list"
  assumes "xs \<noteq> []"
  shows "upper_median xs = sort xs ! (length xs div 2)"
proof -
  let ?s = "sort xs" and ?n = "length xs" and ?k = "length xs div 2"
  let ?A = "set (filter (\<lambda>v. ?n \<le> 2 * length (filter (\<lambda>u. v \<le> u) xs)) xs)"
  from assms have n: "0 < ?n" by simp
  then have k: "?k < length ?s" by simp
  have srt: "sorted ?s" by simp
  have mem: "?s ! ?k \<in> set xs"
    using k by (metis nth_mem set_sort)
  have "length ?s - ?k \<le> length (filter (\<lambda>u. ?s ! ?k \<le> u) xs)"
    using count_ge_sorted_nth [OF srt k] by (simp add: count_sort)
  then have "?n \<le> 2 * length (filter (\<lambda>u. ?s ! ?k \<le> u) xs)"
    by simp
  with mem have inA: "?s ! ?k \<in> ?A" by simp
  have greatest: "v \<le> ?s ! ?k" if "v \<in> ?A" for v
  proof (rule ccontr)
    assume "\<not> v \<le> ?s ! ?k"
    then have "?s ! ?k < v" by simp
    from count_ge_above_nth [OF srt k this]
    have "length (filter (\<lambda>u. v \<le> u) xs) \<le> ?n - ?k - 1" by (simp add: count_sort)
    moreover from that have "?n \<le> 2 * length (filter (\<lambda>u. v \<le> u) xs)" by simp
    ultimately show False using n by linarith
  qed
  have "Max ?A = ?s ! ?k"
    using inA greatest by (intro Max_eqI) simp_all
  then show ?thesis by (simp add: upper_median_def)
qed

lemma np_median_is_median: "np_median xs = median_spec xs"
proof (cases "xs = [] \<or> NaN \<in> set xs")
  case True
  then show ?thesis by (simp add: np_median_def median_spec_def)
next
  case False
  let ?vs = "map px_val xs"
  from False have ne: "?vs \<noteq> []" by simp
  have len: "length (sort ?vs) = length xs" by simp
  show ?thesis
  proof (cases "odd (length xs)")
    case True
    then have "(length xs - 1) div 2 = length xs div 2"
      by (auto elim!: oddE)
    with False True ne show ?thesis
      by (simp add: np_median_def median_spec_def Let_def lower_median_sorted upper_median_sorted)
  next
    case even: False
    from False have "0 < length xs" by simp
    with even have "(length xs - 1) div 2 = length xs div 2 - 1"
      by (auto elim!: evenE)
    with False even ne show ?thesis
      by (simp add: np_median_def median_spec_def Let_def lower_median_sorted upper_median_sorted)
  qed
qed

lemma base_contour_of_spec:
  assumes "shape intensity = shape significance"
  shows "base_contour_of intensity significance (lo, hi)
           = Inr (compute_base_contour_spec intensity significance (lo, hi))"
  unfolding base_contour_of_def compute_base_contour_spec_def bool_index_def
  using assms by (simp add: selection_eq band_mask_shape np_median_is_median)

lemma calculate_base_contour_result:
  assumes "fits_files e (product_file b s ''snr'') = Some snr_file"
    and "fits_files e (product_file b s ''mom0'') = Some mom0_file"
  shows "fst (calculate_base_contour e s b band w)
       = map_sum id Some (base_contour_of (dat mom0_file) (dat snr_file) band)"
  using assms unfolding calculate_base_contour_def Let_def prog_defs
  by (cases "base_contour_of (dat mom0_file) (dat snr_file) band")
     (auto simp: base_contour_of_def bool_index_def split: if_splits)

text \<open>
  C2.  For SNR and mom0 products of equal shape and a band (lo, hi), the base contour that
  main's contour step computes is the median of the mom0 values at exactly the pixel
  coordinates whose SNR value is strictly above lo and strictly below hi; a pixel whose
  SNR value equals lo or hi is not selected.  The default band is (2, 3).
\<close>

theorem base_contour_is_band_median:
  assumes "fits_files e (product_file b s ''snr'') = Some snr_file"
    and "fits_files e (product_file b s ''mom0'') = Some mom0_file"
    and "shape (dat mom0_file) = shape (dat snr_file)"
  shows "fst (calculate_base_contour e s b (lo, hi) w)
           = Inr (Some (compute_base_contour_spec (dat mom0_file) (dat snr_file) (lo, hi)))
       \<and> (\<forall>i j. dat snr_file ! i ! j = lo \<or> dat snr_file ! i ! j = hi
                 \<longrightarrow> \<not> in_band (dat snr_file) (lo, hi) (i, j))
       \<and> default_snr_range = (Px 2, Px 3)"
proof -
  have "fst (calculate_base_contour e s b (lo, hi) w)
           = Inr (Some (compute_base_contour_spec (dat mom0_file) (dat snr_file) (lo, hi)))"
    by (simp add: calculate_base_contour_result [OF assms(1,2)] base_contour_of_spec [OF assms(3)])
  moreover have "\<not> in_band (dat snr_file) (lo, hi) (i, j)"
    if "dat snr_file ! i ! j = lo \<or> dat snr_file ! i ! j = hi" for i j
    using that by (cases lo; cases hi) (auto simp: in_band_def)
  ultimately show ?thesis by (simp add: default_snr_range_def)
qed

text \<open>
  The band (2, 3) selects the intensities 2, 10 and 3, whose median is 3 (their mean is
  5); the pixels with significance 2 and 3 are left out.
\<close>

theorem base_contour_is_band_median_witness:
  "map (\<lambda>(i, j). example_intensity ! i ! j)
       (filter (in_band example_significance (Px 2, Px 3)) (pixel_coordinates example_intensity))
     = [Px 2, Px 10, Px 3]
   \<and> fst (calculate_base_contour example_env example_source ''cubelets/s'' default_snr_range
            (fresh_world [])) = Inr (Some (Px 3))
   \<and> \<not> in_band example_significance (Px 2, Px 3) (0, 0)
   \<and> \<not> in_band example_significance (Px 2, Px 3) (1, 0)"
proof -
  let ?snr = "\<lparr>hdr = [(''BUNIT'', '' '')], dat = example_significance\<rparr>"
  let ?mom0 = "\<lparr>hdr = [(''BUNIT'', ''Jy/beam*m/s'')], dat = example_intensity\<rparr>"
  have f1: "fits_files example_env (product_file ''cubelets/s'' example_source ''snr'') = Some ?snr"
    by (simp add: example_env_def product_file_def example_source_def)
  have f2: "fits_files example_env (product_file ''cubelets/s'' example_source ''mom0'') = Some ?mom0"
    by (simp add: example_env_def product_file_def example_source_def)
  have sh: "shape (dat ?mom0) = shape (dat ?snr)"
    by (simp add: shape_def example_intensity_def example_significance_def)
  have sel: "map (\<lambda>(i, j). example_intensity ! i ! j)
       (filter (in_band example_significance (Px 2, Px 3)) (pixel_coordinates example_intensity))
     = [Px 2, Px 10, Px 3]"
    by code_simp
  have med: "compute_base_contour_spec example_intensity example_significance (Px 2, Px 3) = Px 3"
    by code_simp
  have b0: "example_significance ! 0 ! 0 = Px 2" and b1: "example_significance ! 1 ! 0 = Px 3"
    by (simp_all add: example_significance_def)
  from base_contour_is_band_median [OF f1 f2 sh, of "Px 2" "Px 3" "fresh_world []"] sel med b0 b1
  show ?thesis by (simp add: default_snr_range_def)
qed

section \<open>The early return of main\<close>

lemma calculate_base_contour_missing:
  assumes "product_file b s ''snr'' \<notin> dom (fits_files e)
         \<or> product_file b s ''mom0'' \<notin> dom (fits_files e)"
  shows "fst (calculate_base_contour e s b band w) = Inr None"
  using assms unfolding calculate_base_contour_def Let_def prog_defs
  by (auto simp: dom_def split: option.splits)

lemma calculate_base_contour_present:
  assumes "product_file b s ''snr'' \<in> dom (fits_files e)"
    and "product_file b s ''mom0'' \<in> dom (fits_files e)"
  shows "fst (calculate_base_contour e s b band w) \<noteq> Inr None"
proof -
  from assms obtain snr_file mom0_file where
    "fits_files e (product_file b s ''snr'') = Some snr_file"
    "fits_files e (product_file b s ''mom0'') = Some mom0_file"
    by auto
  from calculate_base_contour_result [OF this, of band w] show ?thesis
    by (cases "base_contour_of (dat mom0_file) (dat snr_file) band") simp_all
qed

lemma calculate_base_contour_world:
  "figures (snd (calculate_base_contour e s b band w)) = figures w
   \<and> saved (snd (calculate_base_contour e s b band w)) = saved w
   \<and> surveys (snd (calculate_base_contour e s b band w)) = surveys w"
  using quiet_calculate_base_contour [of e s b band] unfolding quiet_def by blast

lemma bnd_Inr: "f w = (Inr a, w1) \<Longrightarrow> bnd f g w = g a w1"
  by (simp add: bnd_def)

lemma main_early_return:
  assumes "fst (calculate_base_contour e s b band (w\<lparr>printed := printed w @ [Start_making]\<rparr>))
         = Inr None"
  shows "fst (main e s b view suffix band w) = Inr ReturnsNone
       \<and> figures (snd (main e s b view suffix band w)) = figures w
       \<and> saved (snd (main e s b view suffix band w)) = saved w
       \<and> surveys (snd (main e s b view suffix band w)) = surveys w"
proof -
  let ?wa = "w\<lparr>printed := printed w @ [Start_making]\<rparr>"
  let ?c = "calculate_base_contour e s b band ?wa"
  have p: "print Start_making w = (Inr (), ?wa)"
    by (simp add: print_def)
  from assms have c: "?c = (Inr None, snd ?c)"
    by (metis prod.collapse)
  have "main e s b view suffix band w = ret ReturnsNone (snd ?c)"
    unfolding main_def Let_def by (simp add: bnd_Inr [of "print Start_making" w, OF p]
          bnd_Inr [of "calculate_base_contour e s b band" ?wa, OF c])
  then have m: "main e s b view suffix band w = (Inr ReturnsNone, snd ?c)"
    by (simp add: ret_def)
  from calculate_base_contour_world [of e s b band ?wa] m show ?thesis
    by simp
qed

lemma main_returns_None:
  assumes "main e s b view suffix band w = (Inr ReturnsNone, w')"
  shows "fst (calculate_base_contour e s b band (w\<lparr>printed := printed w @ [Start_making]\<rparr>))
       = Inr None"
  using assms unfolding main_def Let_def
  by (auto simp: ret_def print_def split: prod.splits option.splits dest!: bnd_InrD)

text \<open>main returns None exactly when the SNR or the mom0 product is missing.\<close>

lemma main_returns_None_iff:
  "fst (main e s b view suffix band w) = Inr ReturnsNone \<longleftrightarrow>
     product_file b s ''snr'' \<notin> dom (fits_files e)
     \<or> product_file b s ''mom0'' \<notin> dom (fits_files e)"
proof
  assume "fst (main e s b view suffix band w) = Inr ReturnsNone"
  then have "main e s b view suffix band w
      = (Inr ReturnsNone, snd (main e s b view suffix band w))"
    by (metis prod.collapse)
  from main_returns_None [OF this] calculate_base_contour_present [of b s e]
  show "product_file b s ''snr'' \<notin> dom (fits_files e)
     \<or> product_file b s ''mom0'' \<notin> dom (fits_files e)"
    by blast
next
  assume "product_file b s ''snr'' \<notin> dom (fits_files e)
     \<or> product_file b s ''mom0'' \<notin> dom (fits_files e)"
  from main_early_return [OF calculate_base_contour_missing [OF this]]
  show "fst (main e s b view suffix band w) = Inr ReturnsNone"
    by blast
qed

lemma main_returns_None_world:
  assumes "fst (main e s b view suffix band w) = Inr ReturnsNone"
  shows "figures (snd (main e s b view suffix band w)) = figures w
       \<and> saved (snd (main e s b view suffix band w)) = saved w
       \<and> surveys (snd (main e s b view suffix band w)) = surveys w"
proof -
  from assms have "main e s b view suffix band w
      = (Inr ReturnsNone, snd (main e s b view suffix band w))"
    by (metis prod.collapse)
  from main_early_return [OF main_returns_None [OF this]] show ?thesis
    by blast
qed

section \<open>A block whose survey is not listed does nothing\<close>

lemma hst_block_not_listed:
  "''hst'' \<notin> set (surveys v) \<Longrightarrow> ''HST'' \<notin> set (surveys v)
   \<Longrightarrow> hst_block e s b suffix C st v = (Inr st, v)"
  by (simp add: hst_block_def bnd_def in_surveys_def ret_def)

lemma panstarrs_block_not_listed:
  "''panstarrs'' \<notin> set (surveys v)
   \<Longrightarrow> panstarrs_block e s b suffix C view head v = (Inr head, v)"
  by (simp add: panstarrs_block_def bnd_def in_surveys_def ret_def)

lemma decals_block_not_listed:
  "''decals'' \<notin> set (surveys v)
   \<Longrightarrow> decals_block e s b suffix C view head v = (Inr head, v)"
  by (simp add: decals_block_def bnd_def in_surveys_def ret_def)

section \<open>What the renderer refuses\<close>

text \<open>
  With the renderer of the examples: a PV product of one row cannot be contoured, and
  neither can one whose standard deviation is 0 (the three levels are equal); make_pv
  raises, leaves the product open and writes nothing.
\<close>

lemma make_pv_raises_on_one_row:
  "fst (make_pv
          (example_env\<lparr>fits_files := (fits_files example_env)
              (''cubelets/s_1_pv.fits'' \<mapsto> \<lparr>hdr = [], dat = [[Px 1, Px (- 1)]]\<rparr>)\<rparr>)
          example_source ''cubelets/s'' ''png'' (fresh_world [])) = Inl TypeError
   \<and> saved (snd (make_pv
          (example_env\<lparr>fits_files := (fits_files example_env)
              (''cubelets/s_1_pv.fits'' \<mapsto> \<lparr>hdr = [], dat = [[Px 1, Px (- 1)]]\<rparr>)\<rparr>)
          example_source ''cubelets/s'' ''png'' (fresh_world []))) = []"
  by code_simp

lemma make_pv_raises_on_flat_data:
  "fst (make_pv (example_env\<lparr>nanstd := (\<lambda>a. Px 0)\<rparr>) example_source ''cubelets/s'' ''png''
          (fresh_world [])) = Inl ValueError
   \<and> saved (snd (make_pv (example_env\<lparr>nanstd := (\<lambda>a. Px 0)\<rparr>) example_source ''cubelets/s''
                   ''png'' (fresh_world []))) = []
   \<and> opened (snd (make_pv (example_env\<lparr>nanstd := (\<lambda>a. Px 0)\<rparr>) example_source ''cubelets/s''
                    ''png'' (fresh_world []))) = [''cubelets/s_1_pv.fits'']"
  by code_simp

text \<open>
  A base contour that is not positive gives a ladder that does not increase.  In
  make_overlay the renderer's ValueError is caught by the loop of main, which reports the
  survey name and sets no grid; in make_color_im nothing catches it and main ends there.
\<close>

lemma overlay_contour_error_is_caught:
  "contour_ladder (Px (- 3)) ! 1 = Px (- 6)
   \<and> fst (skyview_body example_env example_source ''cubelets/s'' ''png'' (Px (- 3)) 6 ''DSS2 Blue''
            None (fresh_world [''DSS2 Blue''])) = Inr None
   \<and> printed (snd (skyview_body example_env example_source ''cubelets/s'' ''png'' (Px (- 3)) 6
                     ''DSS2 Blue'' None (fresh_world [''DSS2 Blue''])))
       = [Retrieved ''DSS2 Blue'', Making ''DSS2 Blue'', Error_survey_name ''DSS2 Blue'']
   \<and> saved (snd (skyview_body example_env example_source ''cubelets/s'' ''png'' (Px (- 3)) 6
                   ''DSS2 Blue'' None (fresh_world [''DSS2 Blue'']))) = []"
  by code_simp

lemma color_im_contour_error_is_not_caught:
  "fst (survey_images example_env example_source ''cubelets/s'' ''png'' (Px (- 3)) 6
          (fresh_world [''panstarrs''])) = Inl ValueError
   \<and> saved (snd (survey_images example_env example_source ''cubelets/s'' ''png'' (Px (- 3)) 6
                   (fresh_world [''panstarrs'']))) = []"
  by code_simp

section \<open>The run in which no survey image is obtained\<close>







section \<open>Field of view\<close>

lemma any_gt_pair: "np_any_gt [a, b] v \<longleftrightarrow> max a b > v"
  by (auto simp: np_any_gt_def max_def)

lemma np_max_four: "np_max ([a, b] @ [c, d]) = max (max a b) (max c d)"
  by (simp add: max_def)

text \<open>
  C5.  With E the angular extent (per axis the larger of max - center and center - min,
  and the larger of the two axes) and D the default field: the field of view is D when
  E \<le> D/2 and is 2 * E * 1.05 otherwise.
\<close>

theorem field_of_view_resolved:
  "field_of_view s cell D =
     (let E = angular_extent_spec s cell in if E \<le> D / 2 then D else 2 * E * 1.05)"
  unfolding field_of_view_def angular_extent_spec_def Xsize_def Ysize_def enlarged_view_def
    Let_def any_gt_pair np_max_four
  by (simp only: less_max_iff_disj not_le [symmetric] max.bounded_iff de_Morgan_conj [symmetric]
        if_not_P if_P split: if_split) auto

theorem field_of_view_resolved_witness:
  "angular_extent_spec example_source 1 = 2 \<and> field_of_view example_source 1 6 = 6
   \<and> angular_extent_spec (example_source\<lparr>x_max := 15\<rparr>) 1 = 5
   \<and> field_of_view (example_source\<lparr>x_max := 15\<rparr>) 1 6 = 10.5"
  using field_of_view_resolved [of example_source 1 6]
    field_of_view_resolved [of "example_source\<lparr>x_max := 15\<rparr>" 1 6]
  by (simp add: example_source_def angular_extent_spec_def)

section \<open>Velocity map: pixels below the base contour\<close>

lemma mask_below_result:
  assumes "mask_below m h C = Inr out"
  shows "shape m = shape h" and "out = map2 (map2 (\<lambda>v hv. if px_lt hv C then NaN else v)) m h"
  using assms by (auto simp: mask_below_def split: if_splits)

lemma shape_rows:
  assumes "shape a = shape c"
  shows "length a = length c" and "k < length a \<Longrightarrow> length (a ! k) = length (c ! k)"
proof -
  from assms show len: "length a = length c"
    unfolding shape_def by (metis length_map)
  show "length (a ! k) = length (c ! k)" if "k < length a"
    using assms that len unfolding shape_def by (metis nth_map)
qed

lemma mask_below_shape:
  assumes "mask_below m h C = Inr out"
  shows "shape out = shape m"
proof -
  note r = mask_below_result [OF assms]
  note s = shape_rows [OF r(1)]
  show ?thesis
    unfolding shape_def
  proof (rule nth_equalityI)
    show "length (map length out) = length (map length m)"
      using s(1) by (simp add: r(2))
  next
    fix k assume "k < length (map length out)"
    then have k: "k < length m"
      using s(1) by (simp add: r(2))
    with s show "map length out ! k = map length m ! k"
      by (simp add: r(2))
  qed
qed

lemma mask_below_pixel:
  assumes mask: "mask_below m h C = Inr out"
    and i: "i < length m" and j: "j < length (m ! i)"
  shows "out ! i ! j = (if px_lt (h ! i ! j) C then NaN else m ! i ! j)"
proof -
  note r = mask_below_result [OF mask]
  note s = shape_rows [OF r(1)]
  show ?thesis
    using i j s(1) s(2) [OF i] by (simp add: r(2))
qed

lemma px_ge_not_lt: "px_ge a c \<Longrightarrow> \<not> px_lt a c"
  by (cases a; cases c) auto

lemma make_mom1_writes:
  assumes run: "make_mom1 e s b head C suffix w = (r, w')"
    and new: "figures w' (figure_file b s ''mom1'' suffix)
                \<noteq> figures w (figure_file b s ''mom1'' suffix)"
  shows "\<exists>mom1 hi m fp h fp' out.
      fits_files e (product_file b s ''mom1'') = Some mom1
    \<and> fits_files e (product_file b s ''mom0'') = Some hi
    \<and> reproject_interp e (mom1\<lparr>dat := to_kms e (dat mom1)\<rparr>) (Some head) = Inr (m, fp)
    \<and> reproject_interp e hi (Some head) = Inr (h, fp')
    \<and> mask_below m h C = Inr out
    \<and> map_option shown (figures w' (figure_file b s ''mom1'' suffix)) = Some out"
  using assms
  unfolding make_mom1_def Let_def unless_exists_apply open_or_report_def contour_def prog_defs
  by (auto split: if_splits option.splits sum.splits prod.splits)

text \<open>
  C4.  When make_mom1 writes the velocity map, the array it shows is the velocity product
  reprojected onto the primary grid, in which every pixel whose co-registered (reprojected)
  intensity is strictly below the base contour C is the not-a-number sentinel, whatever
  the footprint; every other pixel keeps its reprojected velocity, so no pixel with
  intensity at least C and full footprint coverage is invalid.
\<close>

theorem velocity_map_invalid_below_contour:
  assumes run: "make_mom1 e s b head C suffix w = (r, w')"
    and new: "figures w' (figure_file b s ''mom1'' suffix)
                \<noteq> figures w (figure_file b s ''mom1'' suffix)"
  shows "\<exists>mom1 hi m fp h fp' out.
      fits_files e (product_file b s ''mom1'') = Some mom1
    \<and> fits_files e (product_file b s ''mom0'') = Some hi
    \<and> reproject_interp e (mom1\<lparr>dat := to_kms e (dat mom1)\<rparr>) (Some head) = Inr (m, fp)
    \<and> reproject_interp e hi (Some head) = Inr (h, fp')
    \<and> map_option shown (figures w' (figure_file b s ''mom1'' suffix)) = Some out
    \<and> shape out = shape m
    \<and> (\<forall>i j. i < length m \<and> j < length (m ! i) \<longrightarrow>
           (px_lt (h ! i ! j) C \<longrightarrow> out ! i ! j = NaN)
         \<and> (\<not> px_lt (h ! i ! j) C \<longrightarrow> out ! i ! j = m ! i ! j)
         \<and> (validity_footprint fp m \<and> px_ge (h ! i ! j) C \<and> fp ! i ! j = Px 1
              \<longrightarrow> out ! i ! j \<noteq> NaN))"
proof -
  from make_mom1_writes [OF run new] obtain mom1 hi m fp h fp' out where
    f: "fits_files e (product_file b s ''mom1'') = Some mom1"
       "fits_files e (product_file b s ''mom0'') = Some hi"
       "reproject_interp e (mom1\<lparr>dat := to_kms e (dat mom1)\<rparr>) (Some head) = Inr (m, fp)"
       "reproject_interp e hi (Some head) = Inr (h, fp')"
    and mask: "mask_below m h C = Inr out"
    and fig: "map_option shown (figures w' (figure_file b s ''mom1'' suffix)) = Some out"
    by blast
  have px: "(px_lt (h ! i ! j) C \<longrightarrow> out ! i ! j = NaN)
         \<and> (\<not> px_lt (h ! i ! j) C \<longrightarrow> out ! i ! j = m ! i ! j)
         \<and> (validity_footprint fp m \<and> px_ge (h ! i ! j) C \<and> fp ! i ! j = Px 1
              \<longrightarrow> out ! i ! j \<noteq> NaN)"
    if i: "i < length m" and j: "j < length (m ! i)" for i j
  proof -
    have valid: "m ! i ! j \<noteq> NaN" if "validity_footprint fp m" "fp ! i ! j = Px 1"
      using i j that unfolding validity_footprint_def by blast
    show ?thesis
      using mask_below_pixel [OF mask i j] valid px_ge_not_lt [of "h ! i ! j" C] by auto
  qed
  from f fig mask_below_shape [OF mask] px show ?thesis
    by blast
qed

text \<open>
  The reprojected intensity is 2 at pixel (0, 1), below the base contour 3, and 3 at
  pixel (1, 1): the first is invalid in the velocity map, the second keeps its velocity.
\<close>

theorem velocity_map_invalid_below_contour_witness:
  "figures (snd (make_mom1 example_env example_source ''cubelets/s'' panstarrs_header (Px 3) ''png''
                   (fresh_world []))) ''figures/s_1_mom1.png''
     \<noteq> figures (fresh_world []) ''figures/s_1_mom1.png''
   \<and> reproject_interp example_env \<lparr>hdr = [(''BUNIT'', ''Jy/beam*m/s'')], dat = example_intensity\<rparr>
        (Some panstarrs_header)
       = Inr ([[Px 100, Px 2, Px 10], [Px 200, Px 3, Px 50]],
              [[Px 1, Px 1, Px 1], [Px 1, Px 1, Px 1]])
   \<and> validity_footprint [[Px 1, Px 1, Px 1], [Px 1, Px 1, Px 1]]
        [[Px 990, Px 1000, Px 1010], [Px 995, Px 1005, Px 1015]]
   \<and> map_option shown
        (figures (snd (make_mom1 example_env example_source ''cubelets/s'' panstarrs_header (Px 3)
                         ''png'' (fresh_world []))) ''figures/s_1_mom1.png'')
       = Some [[Px 990, NaN, Px 1010], [Px 995, Px 1005, Px 1015]]"
proof -
  let ?run = "make_mom1 example_env example_source ''cubelets/s'' panstarrs_header (Px 3) ''png''
                (fresh_world [])"
  have o: "figure_file ''cubelets/s'' example_source ''mom1'' ''png'' = ''figures/s_1_mom1.png''"
    by (simp add: figure_file_def example_source_def)
  have run: "?run = (fst ?run, snd ?run)"
    by simp
  have new: "figures (snd ?run) ''figures/s_1_mom1.png''
               \<noteq> figures (fresh_world []) ''figures/s_1_mom1.png''"
    by code_simp
  have rp: "reproject_interp example_env \<lparr>hdr = [(''BUNIT'', ''Jy/beam*m/s'')], dat = example_intensity\<rparr>
        (Some panstarrs_header)
       = Inr ([[Px 100, Px 2, Px 10], [Px 200, Px 3, Px 50]],
              [[Px 1, Px 1, Px 1], [Px 1, Px 1, Px 1]])"
    by (simp add: example_env_def example_intensity_def)
  have vf: "validity_footprint [[Px 1, Px 1, Px 1], [Px 1, Px 1, Px 1]]
        [[Px 990, Px 1000, Px 1010], [Px 995, Px 1005, Px 1015]]"
    by (simp add: validity_footprint_def shape_def less_Suc_eq)
  have sh: "map_option shown (figures (snd ?run) ''figures/s_1_mom1.png'')
      = Some [[Px 990, NaN, Px 1010], [Px 995, Px 1005, Px 1015]]"
    by code_simp
  from velocity_map_invalid_below_contour [OF run new [folded o]]
  have "\<exists>out. map_option shown (figures (snd ?run) ''figures/s_1_mom1.png'') = Some out"
    unfolding o by blast
  with new rp vf sh show ?thesis by blast
qed

section \<open>The position-velocity figure\<close>


lemma figure_file_snr_not_pv: "figure_file b s ''snr'' suffix \<noteq> figure_file b s ''pv'' suffix"
  by (simp add: figure_file_def)

lemma figure_file_mom1_not_pv: "figure_file b s ''mom1'' suffix \<noteq> figure_file b s ''pv'' suffix"
  by (simp add: figure_file_def)







section \<open>Contour levels\<close>

lemma ladder_first: "C \<in> set (contour_ladder C)"
proof -
  have "px_mul C (Px (2 ^ 0)) \<in> (\<lambda>k. px_mul C (Px (2 ^ k))) ` {0..<10}"
    by (rule imageI) simp
  then have "px_mul C (Px (2 ^ 0)) \<in> set (contour_ladder C)"
    by (simp add: contour_ladder_def)
  then show ?thesis by (cases C) simp_all
qed

lemma figure_file_mom1_not_snr: "figure_file b s ''mom1'' suffix \<noteq> figure_file b s ''snr'' suffix"
  by (simp add: figure_file_def)

lemma admits_levels_by_file: "admits (levels_by_file b s suffix C V P) b s suffix C V"
  unfolding admits_def levels_by_file_def by (simp add: figure_file_def)

lemma new_make_pv:
  "steps (new_figures (levels_by_file b s suffix C V
            (\<lambda>lv. \<exists>pv. fits_files e (product_file b s ''pv'') = Some pv
                       \<and> lv = pv_levels (nanstd e (dat pv)))))
     (make_pv e s b suffix)"
  by (rule figure_step_new [OF step_make_pv])
     (auto simp: levels_by_file_def figure_file_snr_not_pv [symmetric]
        figure_file_mom1_not_pv [symmetric])

lemma main_new_figures:
  assumes contour: "fst (calculate_base_contour e s b band w) = Inr (Some C)"
  shows "steps (new_figures (levels_by_file b s suffix C
            (velocity_levels (v_sys e) (velmin_of e s) (velmax_of e s))
            (\<lambda>lv. \<exists>pv. fits_files e (product_file b s ''pv'') = Some pv
                       \<and> lv = pv_levels (nanstd e (dat pv)))))
     (main e s b view suffix band)"
proof -
  let ?Q = "levels_by_file b s suffix C
            (velocity_levels (v_sys e) (velmin_of e s) (velmax_of e s))
            (\<lambda>lv. \<exists>pv. fits_files e (product_file b s ''pv'') = Some pv
                       \<and> lv = pv_levels (nanstd e (dat pv)))"
  have same: "fst (calculate_base_contour e s b band v) = Inr (Some C)" for v
    using quiet_calculate_base_contour [of e s b band] contour unfolding quiet_def by metis
  have inner: "steps (new_figures ?Q)
       (case c of
          None \<Rightarrow> ret ReturnsNone
        | Some HIlowest \<Rightarrow>
            bnd (if np_any_gt (Xsize s (cellsize e)) (view / 2)
                    \<or> np_any_gt (Ysize s (cellsize e)) (view / 2)
                 then print (Image_bigger (field_of_view s (cellsize e) view)) else ret ())
             (\<lambda>_. bnd (survey_images e s b suffix HIlowest (field_of_view s (cellsize e) view))
                (\<lambda>(opt_head, opt_view'').
                    bnd (moment_maps e s b suffix HIlowest opt_head)
                     (\<lambda>_. bnd (make_pv e s b suffix)
                        (\<lambda>_. bnd (print Done_making) (\<lambda>_. ret ReturnsTrue))))))"
    if "fst (calculate_base_contour e s b band v) = Inr c" for c v
  proof -
    from that same [of v] have c: "c = Some C" by simp
    show ?thesis
      unfolding c option.case
      by (intro steps_bnd steps_if steps_case_prod steps_ret frame_new_figures new_make_pv
            new_survey_images [OF admits_levels_by_file]
            new_moment_maps [OF admits_levels_by_file]
            steps_quiet_figures [OF quiet_print])
  qed
  show ?thesis
    unfolding main_def Let_def
    apply (rule steps_bnd [OF frame_new_figures steps_quiet_figures [OF quiet_print]])
    apply (rule steps_bnd [OF frame_new_figures
          steps_quiet_figures [OF quiet_calculate_base_contour]])
    apply (erule inner)
    done
qed

text \<open>
  C3, amended.  With C the base contour computed for the source, every figure file that a
  run of main writes holds a figure whose contour levels are: the single level C in the
  significance map; the whole ladder C * 2^0, ..., C * 2^9 in every survey overlay, false
  colour overlay and the grey scale intensity map (every file other than the SNR, the
  velocity and the position-velocity figure); the systemic velocity and its offsets by
  50 km/s (and by 100 km/s when the velocity range exceeds 200 km/s) in the velocity map;
  and -2, 2 and 4 times the standard deviation of the PV product's data in the
  position-velocity diagram.  So the levels of every figure other than the velocity map
  and the position-velocity diagram are drawn from the one ladder of C.
\<close>

theorem intensity_contours_from_one_ladder:
  assumes contour: "fst (calculate_base_contour e s b band w) = Inr (Some C)"
    and run: "main e s b view suffix band w = (r, w')"
    and new: "figures w' p = Some fig" "figures w p \<noteq> Some fig"
  shows "(p = figure_file b s ''snr'' suffix \<longrightarrow> levels fig = [C])
       \<and> (p = figure_file b s ''mom1'' suffix
            \<longrightarrow> levels fig = velocity_levels (v_sys e) (velmin_of e s) (velmax_of e s))
       \<and> (p = figure_file b s ''pv'' suffix
            \<longrightarrow> (\<exists>pv. fits_files e (product_file b s ''pv'') = Some pv
                      \<and> levels fig = pv_levels (nanstd e (dat pv))))
       \<and> (p \<noteq> figure_file b s ''snr'' suffix \<and> p \<noteq> figure_file b s ''mom1'' suffix
            \<and> p \<noteq> figure_file b s ''pv'' suffix
            \<longrightarrow> levels fig = contour_ladder C)
       \<and> (p \<noteq> figure_file b s ''mom1'' suffix \<and> p \<noteq> figure_file b s ''pv'' suffix
            \<longrightarrow> set (levels fig) \<subseteq> set (contour_ladder C))"
proof -
  from new_figuresD [OF main_new_figures [OF contour] run, of p] new
  have "levels_by_file b s suffix C
            (velocity_levels (v_sys e) (velmin_of e s) (velmax_of e s))
            (\<lambda>lv. \<exists>pv. fits_files e (product_file b s ''pv'') = Some pv
                       \<and> lv = pv_levels (nanstd e (dat pv))) p fig"
    by auto
  then show ?thesis
    using ladder_first [of C]
    by (auto simp: levels_by_file_def figure_file_snr_not_pv figure_file_mom1_not_pv
          figure_file_mom1_not_snr split: if_splits)
qed

text \<open>
  The caller lists DSS2 Blue: the overlay holds the whole ladder of 3, the significance
  map the single level 3.
\<close>

theorem intensity_contours_from_one_ladder_witness:
  "fst (calculate_base_contour example_env example_source ''cubelets/s'' default_snr_range
          (fresh_world [''DSS2 Blue''])) = Inr (Some (Px 3))
   \<and> map_option levels
        (figures (snd (main example_env example_source ''cubelets/s'' 6 ''png'' default_snr_range
                         (fresh_world [''DSS2 Blue''])))
           ''figures/s_1_mom0dss2blue.png'')
       = Some [Px 3, Px 6, Px 12, Px 24, Px 48, Px 96, Px 192, Px 384, Px 768, Px 1536]
   \<and> contour_ladder (Px 3)
       = [Px 3, Px 6, Px 12, Px 24, Px 48, Px 96, Px 192, Px 384, Px 768, Px 1536]
   \<and> map_option levels
        (figures (snd (main example_env example_source ''cubelets/s'' 6 ''png'' default_snr_range
                         (fresh_world [''DSS2 Blue''])))
           ''figures/s_1_snr.png'')
       = Some [Px 3]"
proof -
  let ?w = "fresh_world [''DSS2 Blue'']"
  let ?main = "main example_env example_source ''cubelets/s'' 6 ''png'' default_snr_range"
  let ?p = "''figures/s_1_mom0dss2blue.png''"
  let ?q = "''figures/s_1_snr.png''"
  have c: "fst (calculate_base_contour example_env example_source ''cubelets/s'' default_snr_range ?w)
      = Inr (Some (Px 3))"
    by code_simp
  have run: "?main ?w = (fst (?main ?w), snd (?main ?w))"
    by simp
  have "?p \<in> dom (figures (snd (?main ?w)))"
    by code_simp
  then obtain fig where fig: "figures (snd (?main ?w)) ?p = Some fig"
    by auto
  have "?q \<in> dom (figures (snd (?main ?w)))"
    by code_simp
  then obtain fig2 where fig2: "figures (snd (?main ?w)) ?q = Some fig2"
    by auto
  have old: "figures ?w ?p \<noteq> Some fig" "figures ?w ?q \<noteq> Some fig2"
    by (simp_all add: fresh_world_def)
  have p: "?p \<noteq> figure_file ''cubelets/s'' example_source ''mom1'' ''png''"
    "?p \<noteq> figure_file ''cubelets/s'' example_source ''pv'' ''png''"
    "?p \<noteq> figure_file ''cubelets/s'' example_source ''snr'' ''png''"
    and q: "?q = figure_file ''cubelets/s'' example_source ''snr'' ''png''"
    by (simp_all add: figure_file_def example_source_def)
  have l: "contour_ladder (Px 3)
       = [Px 3, Px 6, Px 12, Px 24, Px 48, Px 96, Px 192, Px 384, Px 768, Px 1536]"
    by code_simp
  from intensity_contours_from_one_ladder [OF c run fig old(1)] p
  have 1: "levels fig = contour_ladder (Px 3)"
    by blast
  from intensity_contours_from_one_ladder [OF c run fig2 old(2)] q
  have 2: "levels fig2 = [Px 3]"
    by blast
  from c l 1 2 fig fig2 show ?thesis
    by simp
qed

text \<open>
  The claim as stated fails: the position-velocity diagram of the example is drawn with
  contours at -10, 10 and 20 (the standard deviation of its data is 5), none of which is
  on the ladder of the base contour 3.
\<close>

theorem pv_contours_not_from_ladder:
  "fst (calculate_base_contour example_env example_source ''cubelets/s'' default_snr_range
          (fresh_world [])) = Inr (Some (Px 3))
   \<and> fst (main example_env example_source ''cubelets/s'' 6 ''png'' default_snr_range
            (fresh_world [])) = Inr ReturnsTrue
   \<and> map_option levels
        (figures (snd (main example_env example_source ''cubelets/s'' 6 ''png'' default_snr_range
                         (fresh_world [])))
           (figure_file ''cubelets/s'' example_source ''pv'' ''png''))
       = Some [Px (- 10), Px 10, Px 20]
   \<and> Px (- 10) \<notin> set (contour_ladder (Px 3))
   \<and> Px 10 \<notin> set (contour_ladder (Px 3))
   \<and> Px 20 \<notin> set (contour_ladder (Px 3))"
  by code_simp

section \<open>The caller's survey list\<close>

text \<open>
  C10, amended.  A call of main that runs to its end (it returns True) removes from the
  list object passed as \<^verbatim>\<open>surveys\<close> the first occurrence of each of 'hst', 'panstarrs'
  and 'decals' that it held.  For a list without repeated entries none of the three is
  left: in a later call sharing the list the PanSTARRS block and the DECaLS block do
  nothing, and the HST block does nothing unless the list holds the upper-case entry
  'HST'.  A call that returns None, which it does exactly when the SNR or the mom0 product
  is missing, leaves the list as it was.
\<close>

theorem main_shortens_callers_list:
  "(fst (main e s b view suffix band w) = Inr ReturnsTrue
      \<longrightarrow> surveys (snd (main e s b view suffix band w))
            = remove1 ''decals'' (remove1 ''panstarrs'' (remove1 ''hst'' (surveys w)))
        \<and> (distinct (surveys w)
             \<longrightarrow> ''hst'' \<notin> set (surveys (snd (main e s b view suffix band w)))
               \<and> ''panstarrs'' \<notin> set (surveys (snd (main e s b view suffix band w)))
               \<and> ''decals'' \<notin> set (surveys (snd (main e s b view suffix band w)))
               \<and> (\<forall>v. surveys v = surveys (snd (main e s b view suffix band w))
                      \<longrightarrow> panstarrs_block e2 s2 b2 suffix2 C2 view2 head2 v = (Inr head2, v)
                        \<and> decals_block e2 s2 b2 suffix2 C2 view2 head2 v = (Inr head2, v)
                        \<and> (''HST'' \<notin> set (surveys w)
                             \<longrightarrow> hst_block e2 s2 b2 suffix2 C2 st2 v = (Inr st2, v)))))
   \<and> (fst (main e s b view suffix band w) = Inr ReturnsNone
      \<longrightarrow> surveys (snd (main e s b view suffix band w)) = surveys w)
   \<and> (fst (main e s b view suffix band w) = Inr ReturnsNone
      \<longleftrightarrow> product_file b s ''snr'' \<notin> dom (fits_files e)
          \<or> product_file b s ''mom0'' \<notin> dom (fits_files e))"
proof (intro conjI impI allI)
  let ?w' = "snd (main e s b view suffix band w)"
  assume "fst (main e s b view suffix band w) = Inr ReturnsTrue"
  then have "main e s b view suffix band w = (Inr ReturnsTrue, ?w')"
    by (metis prod.collapse)
  then show eq: "surveys ?w'
      = remove1 ''decals'' (remove1 ''panstarrs'' (remove1 ''hst'' (surveys w)))"
    by (rule main_surveys)
  assume d: "distinct (surveys w)"
  show h: "''hst'' \<notin> set (surveys ?w')" and p: "''panstarrs'' \<notin> set (surveys ?w')"
    and c: "''decals'' \<notin> set (surveys ?w')"
    using d unfolding eq by (auto simp: set_remove1_eq)
  fix v :: world
  assume v: "surveys v = surveys ?w'"
  from p v show "panstarrs_block e2 s2 b2 suffix2 C2 view2 head2 v = (Inr head2, v)"
    by (simp add: panstarrs_block_not_listed)
  from c v show "decals_block e2 s2 b2 suffix2 C2 view2 head2 v = (Inr head2, v)"
    by (simp add: decals_block_not_listed)
  assume "''HST'' \<notin> set (surveys w)"
  then have "''HST'' \<notin> set (surveys ?w')"
    unfolding eq by (auto dest: notin_set_remove1)
  with h v show "hst_block e2 s2 b2 suffix2 C2 st2 v = (Inr st2, v)"
    by (simp add: hst_block_not_listed)
next
  assume "fst (main e s b view suffix band w) = Inr ReturnsNone"
  from main_returns_None_world [OF this]
  show "surveys (snd (main e s b view suffix band w)) = surveys w"
    by simp
next
  show "fst (main e s b view suffix band w) = Inr ReturnsNone
      \<longleftrightarrow> product_file b s ''snr'' \<notin> dom (fits_files e)
          \<or> product_file b s ''mom0'' \<notin> dom (fits_files e)"
    by (rule main_returns_None_iff)
qed

text \<open>
  The caller lists 'hst', 'panstarrs' and 'DSS2 Blue': after the call the list object
  holds 'DSS2 Blue' only, and in a second call sharing it the HST and the PanSTARRS block
  do nothing.
\<close>

theorem main_shortens_callers_list_witness:
  "fst (main example_env example_source ''cubelets/s'' 6 ''png'' default_snr_range
          (fresh_world [''hst'', ''panstarrs'', ''DSS2 Blue''])) = Inr ReturnsTrue
   \<and> distinct [''hst'', ''panstarrs'', ''DSS2 Blue'']
   \<and> ''HST'' \<notin> set [''hst'', ''panstarrs'', ''DSS2 Blue'']
   \<and> surveys (snd (main example_env example_source ''cubelets/s'' 6 ''png'' default_snr_range
                     (fresh_world [''hst'', ''panstarrs'', ''DSS2 Blue'']))) = [''DSS2 Blue'']
   \<and> hst_block example_env example_source ''cubelets/s'' ''png'' (Px 3) (None, 6)
        (snd (main example_env example_source ''cubelets/s'' 6 ''png'' default_snr_range
                (fresh_world [''hst'', ''panstarrs'', ''DSS2 Blue''])))
       = (Inr (None, 6),
          snd (main example_env example_source ''cubelets/s'' 6 ''png'' default_snr_range
                 (fresh_world [''hst'', ''panstarrs'', ''DSS2 Blue''])))
   \<and> panstarrs_block example_env example_source ''cubelets/s'' ''png'' (Px 3) 6 None
        (snd (main example_env example_source ''cubelets/s'' 6 ''png'' default_snr_range
                (fresh_world [''hst'', ''panstarrs'', ''DSS2 Blue''])))
       = (Inr None,
          snd (main example_env example_source ''cubelets/s'' 6 ''png'' default_snr_range
                 (fresh_world [''hst'', ''panstarrs'', ''DSS2 Blue''])))"
proof -
  let ?w = "fresh_world [''hst'', ''panstarrs'', ''DSS2 Blue'']"
  let ?main = "main example_env example_source ''cubelets/s'' 6 ''png'' default_snr_range"
  have r: "fst (?main ?w) = Inr ReturnsTrue"
    by code_simp
  have l: "surveys ?w = [''hst'', ''panstarrs'', ''DSS2 Blue'']"
    by (simp add: fresh_world_def)
  from main_shortens_callers_list
         [of example_env example_source "''cubelets/s''" 6 "''png''" default_snr_range ?w
             example_env example_source "''cubelets/s''" "''png''" "Px 3" 6 None "(None, 6)"]
    r l
  show ?thesis by simp
qed

text \<open>
  The claim as stated fails.  A call that returns early because the SNR product is
  missing leaves the list as it was; of a repeated entry only the first occurrence is
  removed; and from the list 'hst', 'HST' the upper-case entry is left, on which a second
  call sharing the list enters the HST block again (it finds the HST overlay made) and
  ends with the ValueError of removing 'hst'.
\<close>

theorem main_may_keep_listed_survey:
  "fst (main example_env_without_snr example_source ''cubelets/s'' 6 ''png'' default_snr_range
          (fresh_world [''panstarrs''])) = Inr ReturnsNone
   \<and> surveys (snd (main example_env_without_snr example_source ''cubelets/s'' 6 ''png''
                     default_snr_range (fresh_world [''panstarrs'']))) = [''panstarrs'']
   \<and> fst (main example_env example_source ''cubelets/s'' 6 ''png'' default_snr_range
            (fresh_world [''panstarrs'', ''panstarrs''])) = Inr ReturnsTrue
   \<and> surveys (snd (main example_env example_source ''cubelets/s'' 6 ''png'' default_snr_range
                     (fresh_world [''panstarrs'', ''panstarrs'']))) = [''panstarrs'']
   \<and> fst (main example_env example_source ''cubelets/s'' 6 ''png'' default_snr_range
            (fresh_world [''hst'', ''HST''])) = Inr ReturnsTrue
   \<and> surveys (snd (main example_env example_source ''cubelets/s'' 6 ''png'' default_snr_range
                     (fresh_world [''hst'', ''HST'']))) = [''HST'']
   \<and> fst (main example_env example_source ''cubelets/s'' 6 ''png'' default_snr_range
            (snd (main example_env example_source ''cubelets/s'' 6 ''png'' default_snr_range
                    (fresh_world [''hst'', ''HST''])))) = Inl ValueError
   \<and> last (printed
        (snd (main example_env example_source ''cubelets/s'' 6 ''png'' default_snr_range
                (snd (main example_env example_source ''cubelets/s'' 6 ''png'' default_snr_range
                        (fresh_world [''hst'', ''HST'']))))))
       = Already_exists ''figures/s_1_mom0hst.png''"
  by code_simp

section \<open>Where the code does not do what the specification says\<close>

text \<open>
  C1.  The caller lists 'hst' before 'panstarrs' and both archives deliver an image.  The
  HST block takes the HST header as the grid and the HST view, removes 'hst' from the
  list, and so 'panstarrs' is the first entry when the next block compares: the grid is
  overwritten with the PanSTARRS header (the view stays the HST one), and the moment maps
  are drawn on the grid of the survey that was listed second.
\<close>

theorem later_listed_survey_supplies_primary_grid:
  "get_hst_cosmos example_env (2 / 3) = Some hst_image
   \<and> hdr hst_image \<noteq> panstarrs_header
   \<and> fst (survey_images example_env example_source ''cubelets/s'' ''png'' (Px 3) 6
            (fresh_world [''hst'', ''panstarrs''])) = Inr (Some panstarrs_header, 2 / 3)
   \<and> map_option projection
        (figures (snd (main example_env example_source ''cubelets/s'' 6 ''png'' default_snr_range
                         (fresh_world [''hst'', ''panstarrs''])))
           ''figures/s_1_mom0hi.png'')
       = Some (Some panstarrs_header)"
  by code_simp

text \<open>
  C6.  SkyView has no image for the first listed survey (it answers with an empty list,
  which get_skyview reports as a warning and turns into None).  main hands None to
  make_overlay, which subscripts it: the TypeError is not among the exceptions the loop
  catches, so main ends there.  The second listed survey, for which an image exists, is
  never fetched, and no figure at all is written, not even the position-velocity one.
\<close>

theorem missing_skyview_image_aborts_main:
  "skyview_get_images example_env 6 ''DSS2 Red'' = Inr []
   \<and> skyview_get_images example_env 6 ''DSS2 Blue'' = Inr [dss_image]
   \<and> fst (main example_env example_source ''cubelets/s'' 6 ''png'' default_snr_range
            (fresh_world [''DSS2 Red'', ''DSS2 Blue''])) = Inl TypeError
   \<and> saved (snd (main example_env example_source ''cubelets/s'' 6 ''png'' default_snr_range
                   (fresh_world [''DSS2 Red'', ''DSS2 Blue'']))) = []
   \<and> printed (snd (main example_env example_source ''cubelets/s'' 6 ''png'' default_snr_range
                     (fresh_world [''DSS2 Red'', ''DSS2 Blue''])))
       = [Start_making, Contour_defined (Px 3), Warning_no_image ''DSS2 Red'', Making ''DSS2 Red'']"
  by code_simp

text \<open>
  C9.  make_snr opens the SNR and the mom0 product and closes only the latter; make_mom1
  opens mom1 and mom0 and closes only the former; make_color_im never closes the mom0
  product it opens.  Each returns normally with a handle still open.
\<close>

theorem figure_steps_leave_handles_open:
  "fst (make_snr example_env example_source ''cubelets/s'' panstarrs_header (Px 3) ''png''
          (fresh_world [])) = Inr ()
   \<and> opened (snd (make_snr example_env example_source ''cubelets/s'' panstarrs_header (Px 3) ''png''
                    (fresh_world []))) = [''cubelets/s_1_snr.fits'']
   \<and> fst (make_mom1 example_env example_source ''cubelets/s'' panstarrs_header (Px 3) ''png''
            (fresh_world [])) = Inr ()
   \<and> opened (snd (make_mom1 example_env example_source ''cubelets/s'' panstarrs_header (Px 3) ''png''
                    (fresh_world []))) = [''cubelets/s_1_mom0.fits'']
   \<and> fst (make_color_im example_env example_source ''cubelets/s'' (Some [[Px 0]])
            (Some panstarrs_header) (Px 3) ''png'' ''panstarrs'' (fresh_world [])) = Inr ()
   \<and> opened (snd (make_color_im example_env example_source ''cubelets/s'' (Some [[Px 0]])
                    (Some panstarrs_header) (Px 3) ''png'' ''panstarrs'' (fresh_world [])))
       = [''cubelets/s_1_mom0.fits'']"
  by code_simp

text \<open>
  The guards themselves hold: a run of main, however it ends, changes no figure file that
  existed when it began.
\<close>

lemma main_writes_new_files_only:
  "steps (new_figures (\<lambda>q fig. True)) (main e s b view suffix band)"
  unfolding main_def Let_def
  by (intro steps_bnd steps_if steps_case_option steps_case_prod steps_ret frame_new_figures
        steps_quiet_figures [OF quiet_print]
        steps_quiet_figures [OF quiet_calculate_base_contour]
        new_survey_images new_moment_maps figure_step_new [OF step_make_pv])
     (simp_all add: admits_def)

lemma main_keeps_existing_figures:
  "figures w \<subseteq>\<^sub>m figures (snd (main e s b view suffix band w))"
proof -
  have "main e s b view suffix band w
      = (fst (main e s b view suffix band w), snd (main e s b view suffix band w))"
    by simp
  from new_figuresD [OF main_writes_new_files_only this]
  show ?thesis
    unfolding map_le_def by (metis domIff)
qed


end
